theory Spec2Isabelle
  imports Complex_Main
begin

section \<open>Python and numpy values\<close>

text \<open>
  The simulator is Python on top of numpy. Exceptions are values of the type \<open>error\<close>;
  a method of an object returns the object as the call leaves it together with either
  the exception raised or the value returned, so that an update made before a raise
  stays visible. numpy's floating-point numbers are read as the real and complex
  numbers they approximate.
\<close>

datatype error =
    ValueError_Dimensions
  | ValueError_NotNormalized
  | ValueError_NoEigenvectors
  | ValueError_ComplexProbability
  | ValueError_Shape
  | ValueError_Choice
  | ValueError_Unpack
  | IndexError
  | KeyError
  | TypeError
  | AttributeError

type_synonym cvec = "complex list"
type_synonym cmat = "complex list list"

text \<open>\<open>scipy.linalg.norm\<close> of a one-dimensional array: the Euclidean norm.\<close>

definition la_norm :: "cvec \<Rightarrow> real" where
  "la_norm v = sqrt (sum_list (map (\<lambda>x. (cmod x)\<^sup>2) v))"

text \<open>\<open>np.rint\<close>: the nearest integer, a tie going to the even neighbour.\<close>

definition rint :: "real \<Rightarrow> int" where
  "rint x =
     (let f = \<lfloor>x\<rfloor>; d = x - of_int f
      in if d < 1 / 2 then f else if 1 / 2 < d then f + 1 else if even f then f else f + 1)"

text \<open>\<open>np.round(x, decimals)\<close> scales by a power of ten, rounds and scales back.\<close>

definition np_round :: "real \<Rightarrow> nat \<Rightarrow> real" where
  "np_round x decimals = of_int (rint (x * 10 ^ decimals)) / 10 ^ decimals"

text \<open>An array divided by a real scalar, as in \<open>state / la.norm(state)\<close>.\<close>

definition np_div :: "cvec \<Rightarrow> real \<Rightarrow> cvec" where
  "np_div v c = map (\<lambda>x. x / complex_of_real c) v"

text \<open>\<open>np.dot\<close> of two one-dimensional arrays, of a matrix and a vector, and of two matrices.
  numpy raises a ValueError when the inner dimensions differ.\<close>

definition dot :: "cvec \<Rightarrow> cvec \<Rightarrow> complex" where
  "dot a b = sum_list (map2 (*) a b)"

definition np_dot_vv :: "cvec \<Rightarrow> cvec \<Rightarrow> error + complex" where
  "np_dot_vv a b = (if length a = length b then Inr (dot a b) else Inl ValueError_Shape)"

definition np_dot_mv :: "cmat \<Rightarrow> cvec \<Rightarrow> error + cvec" where
  "np_dot_mv u v =
     (if list_all (\<lambda>row. length row = length v) u then Inr (map (\<lambda>row. dot row v) u)
      else Inl ValueError_Shape)"

definition np_transpose :: "cmat \<Rightarrow> cmat" where
  "np_transpose m =
     (case m of [] \<Rightarrow> [] | r # _ \<Rightarrow> map (\<lambda>j. map (\<lambda>row. row ! j) m) [0..<length r])"

definition np_dot_mm :: "cmat \<Rightarrow> cmat \<Rightarrow> error + cmat" where
  "np_dot_mm a b =
     (if list_all (\<lambda>row. length row = length b) a
      then Inr (map (\<lambda>row. map (\<lambda>col. dot row col) (np_transpose b)) a)
      else Inl ValueError_Shape)"

text \<open>\<open>np.eye(k)\<close>.\<close>

definition eye :: "nat \<Rightarrow> cmat" where
  "eye k = map (\<lambda>i. map (\<lambda>j. if i = j then 1 else 0) [0..<k]) [0..<k]"

text \<open>Python's \<open>xs[i]\<close> on a list: a negative index counts from the end, an index out of
  range raises \<open>IndexError\<close>.\<close>

definition py_getitem :: "'a list \<Rightarrow> int \<Rightarrow> error + 'a" where
  "py_getitem xs i =
     (let len = int (length xs); j = (if i < 0 then len + i else i)
      in if 0 \<le> j \<and> j < len then Inr (xs ! nat j) else Inl IndexError)"

fun mapM_err :: "('a \<Rightarrow> error + 'b) \<Rightarrow> 'a list \<Rightarrow> error + 'b list" where
  "mapM_err f [] = Inr []"
| "mapM_err f (x # xs) =
     (case f x of
        Inl e \<Rightarrow> Inl e
      | Inr y \<Rightarrow> (case mapM_err f xs of Inl e \<Rightarrow> Inl e | Inr ys \<Rightarrow> Inr (y # ys)))"

subsection \<open>Helpers of \<open>utils.py\<close>\<close>

text \<open>Modelled from the spec: \<open>utils.py\<close>, which defines \<open>ZERO\<close>, \<open>ONE\<close> and \<open>kron\<close>, is not
  among the sources. The docstrings of \<open>StateVector.measure\<close> give the computational basis
  vectors as \<open>(1, 0)\<close> and \<open>(0, 1)\<close>; the spec calls \<open>kron\<close> the tensor product of its
  arguments, taken here as numpy's Kronecker product folded over the list.\<close>

definition ZERO :: cvec where
  "ZERO = [1, 0]"

definition ONE :: cvec where
  "ONE = [0, 1]"

definition np_kron_v :: "cvec \<Rightarrow> cvec \<Rightarrow> cvec" where
  "np_kron_v a b = concat (map (\<lambda>x. map (\<lambda>y. x * y) b) a)"

fun kron_v :: "cvec list \<Rightarrow> cvec" where
  "kron_v [] = [1]"
| "kron_v (v # vs) = np_kron_v v (kron_v vs)"

definition np_kron_m :: "cmat \<Rightarrow> cmat \<Rightarrow> cmat" where
  "np_kron_m a b = concat (map (\<lambda>ra. map (\<lambda>rb. np_kron_v ra rb) b) a)"

fun kron_m :: "cmat list \<Rightarrow> cmat" where
  "kron_m [] = [[1]]"
| "kron_m (m # ms) = np_kron_m m (kron_m ms)"

section \<open>The state-vector engine (\<open>backends.py\<close>)\<close>

text \<open>Modelled from the spec: \<open>register.py\<close> (\<open>Qubit\<close>, \<open>Clbit\<close>, the registers) and the
  class \<open>Basis\<close> of \<open>utils.py\<close> are not among the sources. In the spec a qubit or a
  classical bit is an integer index into its register, and the basis only labels the
  states for display; \<open>Basis(k)\<close> is built from the number of qubits.\<close>

datatype bit = Qubit (index: nat) | Clbit (index: nat)

datatype Basis = Basis nat

text \<open>The fields of a \<open>StateVector\<close>; \<open>n_dim\<close> is the attribute \<open>self.n\<close>.\<close>

datatype StateVector =
  StateVector (n_qubits: nat) (n_dim: nat) (qubits: "bit list") (basis: Basis)
    (amp: cvec) (snapshots: "StateVector list")

definition with_amp :: "StateVector \<Rightarrow> cvec \<Rightarrow> StateVector" where
  "with_amp st a = StateVector (n_qubits st) (n_dim st) (qubits st) (basis st) a (snapshots st)"

definition with_snapshots :: "StateVector \<Rightarrow> StateVector list \<Rightarrow> StateVector" where
  "with_snapshots st ss = StateVector (n_qubits st) (n_dim st) (qubits st) (basis st) (amp st) ss"

text \<open>\<open>StateVector.set\<close>: both checks come before the only assignment.\<close>

definition sv_set :: "StateVector \<Rightarrow> cvec option \<Rightarrow> StateVector \<times> (error + unit)" where
  "sv_set st a =
     (let state = (case a of None \<Rightarrow> kron_v (replicate (n_qubits st) ZERO) | Some v \<Rightarrow> v)
      in if length state \<noteq> n_dim st then (st, Inl ValueError_Dimensions)
         else if np_round (la_norm state) 10 \<noteq> 1 then (st, Inl ValueError_NotNormalized)
         else (with_amp st (np_div state (la_norm state)), Inr ()))"

text \<open>\<open>StateVector.set_qubits\<close> assigns \<open>qubits\<close>, \<open>n_qubits\<close>, \<open>basis\<close> and \<open>n\<close>, then calls
  \<open>set\<close>. The caller passes the list of bits (a \<open>QuRegister\<close> is unwrapped to it).\<close>

definition set_qubits ::
  "StateVector \<Rightarrow> bit list \<Rightarrow> Basis option \<Rightarrow> cvec option \<Rightarrow> StateVector \<times> (error + unit)" where
  "set_qubits st qs b a =
     sv_set
       (StateVector (length qs) (2 ^ length qs) qs
          (case b of None \<Rightarrow> Basis (length qs) | Some b' \<Rightarrow> b') (amp st) (snapshots st))
       a"

text \<open>The constructor. \<open>__init__\<close> fills the fields with placeholders and calls
  \<open>set_qubits\<close>; when that raises, no object exists, so the placeholders are never read.\<close>

definition StateVector_init ::
  "bit list \<Rightarrow> Basis option \<Rightarrow> cvec option \<Rightarrow> error + StateVector" where
  "StateVector_init qs b a =
     (case set_qubits (StateVector 0 0 [] (Basis 0) [] []) qs b a of
        (st, Inr _) \<Rightarrow> Inr st
      | (_, Inl e) \<Rightarrow> Inl e)"

text \<open>\<open>StateVector.save_snapshot\<close>: a new \<open>StateVector\<close> built from the current fields is
  appended to the log.\<close>

definition save_snapshot :: "StateVector \<Rightarrow> StateVector \<times> (error + unit)" where
  "save_snapshot st =
     (case StateVector_init (qubits st) (Some (basis st)) (Some (amp st)) of
        Inl e \<Rightarrow> (st, Inl e)
      | Inr s \<Rightarrow> (with_snapshots st (snapshots st @ [s]), Inr ()))"

text \<open>\<open>StateVector.density_matrix\<close>: \<open>np.dot\<close> of the amplitudes as a column and as a row.\<close>

definition density_matrix :: "StateVector \<Rightarrow> error + cmat" where
  "density_matrix st = np_dot_mm (map (\<lambda>x. [x]) (amp st)) [amp st]"

subsection \<open>Applying an operator\<close>

text \<open>\<open>StateVector.apply_unitary\<close>: the product is computed, then assigned.\<close>

definition apply_unitary :: "StateVector \<Rightarrow> cmat \<Rightarrow> StateVector \<times> (error + unit)" where
  "apply_unitary st u =
     (case np_dot_mv u (amp st) of
        Inl e \<Rightarrow> (st, Inl e)
      | Inr v \<Rightarrow> (with_amp st v, Inr ()))"

text \<open>The conjugate transpose, and what the caller of \<open>apply_unitary\<close> promises: a square
  matrix \<open>u\<close> with \<open>u\<^sup>\<dagger> u = 1\<close>.\<close>

definition dagger :: "cmat \<Rightarrow> cmat" where
  "dagger u = map (map cnj) (np_transpose u)"

definition unitary :: "cmat \<Rightarrow> bool" where
  "unitary u \<longleftrightarrow>
     u \<noteq> [] \<and> list_all (\<lambda>row. length row = length u) u
     \<and> np_dot_mm (dagger u) u = Inr (eye (length u))"

subsection \<open>Measurement\<close>

text \<open>Modelled from the spec: \<open>get_projector\<close> of \<open>utils.py\<close> is not among the sources; the
  spec has it build the rank-1 projector \<open>|v><v|\<close>. \<open>measure\<close> below does not depend on
  this reading: it takes the function it calls as its first argument.\<close>

definition get_projector :: "cvec \<Rightarrow> cmat" where
  "get_projector v = map (\<lambda>a. map (\<lambda>b. a * cnj b) v) v"

text \<open>\<open>itertools.product([0, 1], repeat=k)\<close>: the first position changes slowest.\<close>

fun product_bits :: "nat \<Rightarrow> nat list list" where
  "product_bits 0 = [[]]"
| "product_bits (Suc k) = map ((#) 0) (product_bits k) @ map ((#) 1) (product_bits k)"

text \<open>The eigenbasis block of \<open>measure\<close>: without eigenvalues the computational basis is
  taken, whatever \<open>eigvecs\<close> is; with eigenvalues, the eigenvectors are required and
  transposed.\<close>

definition measure_basis ::
  "complex list option \<Rightarrow> cmat option \<Rightarrow> error + (complex list \<times> cmat)" where
  "measure_basis eigvals eigvecs =
     (case eigvals of
        None \<Rightarrow> Inr ([0, 1], [ZERO, ONE])
      | Some vals \<Rightarrow>
          (case eigvecs of
             None \<Rightarrow> Inl ValueError_NoEigenvectors
           | Some vecs \<Rightarrow> Inr (vals, np_transpose vecs)))"

text \<open>The inner loop over \<open>zip(res, qubits)\<close>: \<open>parts[q.index] = get_projector(eigvecs[r])\<close>.\<close>

fun set_parts ::
  "(cvec \<Rightarrow> cmat) \<Rightarrow> cmat \<Rightarrow> cmat list \<Rightarrow> (nat \<times> bit) list \<Rightarrow> error + cmat list" where
  "set_parts gp vecs parts [] = Inr parts"
| "set_parts gp vecs parts ((r, q) # rest) =
     (if length vecs \<le> r then Inl IndexError
      else if length parts \<le> index q then Inl IndexError
      else set_parts gp vecs (parts[index q := gp (vecs ! r)]) rest)"

text \<open>One outcome \<open>res\<close>: the projector, the projected state and the probability
  \<open>np.dot(np.conj(self.amp).T, projected)\<close>.\<close>

definition project_outcome ::
  "(cvec \<Rightarrow> cmat) \<Rightarrow> StateVector \<Rightarrow> bit list \<Rightarrow> cmat \<Rightarrow> nat list \<Rightarrow> error + (cvec \<times> complex)" where
  "project_outcome gp st qs vecs res =
     (case set_parts gp vecs (replicate (n_qubits st) (eye 2)) (zip res qs) of
        Inl e \<Rightarrow> Inl e
      | Inr parts \<Rightarrow>
          (case np_dot_mv (kron_m parts) (amp st) of
             Inl e \<Rightarrow> Inl e
           | Inr projected \<Rightarrow>
               (case np_dot_vv (map cnj (amp st)) projected of
                  Inl e \<Rightarrow> Inl e
                | Inr p \<Rightarrow> Inr (projected, p))))"

text \<open>\<open>projections[i] = projected\<close> stores into a row of length \<open>self.n\<close>; numpy repeats an
  array of length one and refuses any other length.\<close>

definition store_row :: "nat \<Rightarrow> cvec \<Rightarrow> error + cvec" where
  "store_row k v =
     (if length v = k then Inr v
      else if length v = 1 then Inr (replicate k (hd v))
      else Inl ValueError_Shape)"

text \<open>The loop over the outcomes: the row is stored, then the imaginary part of the
  probability is checked, then its real part is kept.\<close>

fun measure_loop ::
  "(cvec \<Rightarrow> cmat) \<Rightarrow> StateVector \<Rightarrow> bit list \<Rightarrow> cmat \<Rightarrow> nat list list \<Rightarrow>
   error + (real list \<times> cvec list)" where
  "measure_loop gp st qs vecs [] = Inr ([], [])"
| "measure_loop gp st qs vecs (res # rest) =
     (case project_outcome gp st qs vecs res of
        Inl e \<Rightarrow> Inl e
      | Inr (projected, p) \<Rightarrow>
          (case store_row (n_dim st) projected of
             Inl e \<Rightarrow> Inl e
           | Inr row \<Rightarrow>
               if 1 / 10 ^ 15 < \<bar>Im p\<bar> then Inl ValueError_ComplexProbability
               else (case measure_loop gp st qs vecs rest of
                       Inl e \<Rightarrow> Inl e
                     | Inr (probs, projections) \<Rightarrow> Inr (Re p # probs, row # projections))))"

text \<open>\<open>StateVector.measure\<close>. Its first argument is \<open>get_projector\<close>; its second is the
  sampler \<open>np.random.choice(range(len(results)), p=probs)\<close>, which returns an index or
  rejects the weights. A single qubit is passed as a list of one. After sampling,
  \<open>projections[index]\<close> exists because \<open>results[index]\<close> does.\<close>

definition measure ::
  "(cvec \<Rightarrow> cmat) \<Rightarrow> (real list \<Rightarrow> nat option) \<Rightarrow> StateVector \<Rightarrow> bit list \<Rightarrow>
   complex list option \<Rightarrow> cmat option \<Rightarrow> bool \<Rightarrow> bool \<Rightarrow> StateVector \<times> (error + complex list)" where
  "measure gp choice st qs eigvals eigvecs shadow snapshot =
     (case measure_basis eigvals eigvecs of
        Inl e \<Rightarrow> (st, Inl e)
      | Inr (vals, vecs) \<Rightarrow>
     (case measure_loop gp st qs vecs (product_bits (length qs)) of
        Inl e \<Rightarrow> (st, Inl e)
      | Inr (probs, projections) \<Rightarrow>
     (case choice probs of
        None \<Rightarrow> (st, Inl ValueError_Choice)
      | Some k \<Rightarrow>
     (case py_getitem (product_bits (length qs)) (int k) of
        Inl e \<Rightarrow> (st, Inl e)
      | Inr res \<Rightarrow>
     (case mapM_err (\<lambda>i. py_getitem vals (int i)) res of
        Inl e \<Rightarrow> (st, Inl e)
      | Inr result \<Rightarrow>
          if shadow then (st, Inr result)
          else (case (if snapshot then save_snapshot st else (st, Inr ())) of
                  (st1, Inl e) \<Rightarrow> (st1, Inl e)
                | (st1, Inr _) \<Rightarrow>
                    (with_amp st1
                       (np_div (projections ! k) (la_norm (projections ! k))), Inr result)))))))"

text \<open>\<open>StateVector.project\<close>: the single-qubit operator \<open>op\<close> at position \<open>idx\<close>, the
  identity elsewhere, applied to the amplitude vector.\<close>

definition project :: "StateVector \<Rightarrow> nat \<Rightarrow> cmat \<Rightarrow> error + cvec" where
  "project st i op =
     (if n_qubits st \<le> i then Inl IndexError
      else np_dot_mv (kron_m ((replicate (n_qubits st) (eye 2))[i := op])) (amp st))"

text \<open>\<open>StateVector.measure_qubit\<close>, the single-qubit form. Its first argument is
  \<open>get_projector\<close>, its second the number that \<open>np.random.random()\<close> returns.
  \<open>v0, v1 = eigvecs.T\<close> needs exactly two rows. The new state is assigned before the
  eigenvalue is read.\<close>

definition measure_qubit ::
  "(cvec \<Rightarrow> cmat) \<Rightarrow> real \<Rightarrow> StateVector \<Rightarrow> bit \<Rightarrow> complex list option \<Rightarrow> cmat option \<Rightarrow>
   bool \<Rightarrow> StateVector \<times> (error + real)" where
  "measure_qubit gp rnd st q eigvals eigvecs shadow =
     (case (case eigvals of
              None \<Rightarrow> Inr ([0, 1], ZERO, ONE)
            | Some vals \<Rightarrow>
                (case eigvecs of
                   None \<Rightarrow> Inl ValueError_NoEigenvectors
                 | Some vecs \<Rightarrow>
                     (case np_transpose vecs of
                        [v0, v1] \<Rightarrow> Inr (vals, v0, v1)
                      | _ \<Rightarrow> Inl ValueError_Unpack))) of
        Inl e \<Rightarrow> (st, Inl e)
      | Inr (vals, v0, v1) \<Rightarrow>
     (case project st (index q) (gp v0) of
        Inl e \<Rightarrow> (st, Inl e)
      | Inr projected0 \<Rightarrow>
     (case np_dot_vv (map cnj (amp st)) projected0 of
        Inl e \<Rightarrow> (st, Inl e)
      | Inr p0 \<Rightarrow>
          if 1 / 10 ^ 15 < \<bar>Im p0\<bar> then (st, Inl ValueError_ComplexProbability)
          else
            (let k = (if Re p0 < rnd then 1 else 0 :: nat) in
             case (if k = 1 then project st (index q) (gp v1) else Inr projected0) of
               Inl e \<Rightarrow> (st, Inl e)
             | Inr projected \<Rightarrow>
                 (if shadow then st else with_amp st (np_div projected (la_norm projected)),
                  case py_getitem vals (int k) of Inl e \<Rightarrow> Inl e | Inr v \<Rightarrow> Inr (Re v))))))"

text \<open>Two properties of a call, stated over its outcomes: every outcome's projection
  and probability are computed and stored (no index or shape error is raised on the
  way), and some outcome's probability has an imaginary part beyond \<open>1e-15\<close>.\<close>

definition outcomes_computed ::
  "(cvec \<Rightarrow> cmat) \<Rightarrow> StateVector \<Rightarrow> bit list \<Rightarrow> cmat \<Rightarrow> bool" where
  "outcomes_computed gp st qs vecs =
     list_all
       (\<lambda>res. case project_outcome gp st qs vecs res of
                 Inl e \<Rightarrow> False
               | Inr (projected, p) \<Rightarrow>
                   (case store_row (n_dim st) projected of Inl e \<Rightarrow> False | Inr row \<Rightarrow> True))
       (product_bits (length qs))"

definition complex_probability ::
  "(cvec \<Rightarrow> cmat) \<Rightarrow> StateVector \<Rightarrow> bit list \<Rightarrow> cmat \<Rightarrow> bool" where
  "complex_probability gp st qs vecs =
     list_ex
       (\<lambda>res. case project_outcome gp st qs vecs res of
                 Inl e \<Rightarrow> False
               | Inr (projected, p) \<Rightarrow> 1 / 10 ^ 15 < \<bar>Im p\<bar>)
       (product_bits (length qs))"

section \<open>The parameter store and the instructions (\<open>instruction.py\<close>)\<close>

text \<open>An argument that Python accepts either as one value or as a sequence of values.\<close>

datatype 'a pyarg = Scalar 'a | Seq "'a list"

text \<open>\<open>ParameterMap\<close>: per instruction an entry of \<open>indices\<close> (\<open>None\<close>, or the positions as
  they were passed in), and the pool \<open>params\<close>.\<close>

record ParameterMap =
  indices :: "int pyarg option list"
  params :: "real list"

definition pmap_set :: "ParameterMap \<Rightarrow> real list \<Rightarrow> ParameterMap" where
  "pmap_set pm args = pm\<lparr>params := args\<rparr>"

definition add_param :: "ParameterMap \<Rightarrow> real \<Rightarrow> ParameterMap" where
  "add_param pm v = pm\<lparr>params := params pm @ [v]\<rparr>"

definition link_param :: "ParameterMap \<Rightarrow> int pyarg \<Rightarrow> ParameterMap" where
  "link_param pm k = pm\<lparr>indices := indices pm @ [Some k]\<rparr>"

definition add_empty :: "ParameterMap \<Rightarrow> ParameterMap" where
  "add_empty pm = pm\<lparr>indices := indices pm @ [None]\<rparr>"

text \<open>The loop of \<open>add_arg\<close> over \<open>enumerate(args)\<close>: the position is computed first (and
  \<open>idx[i]\<close> may raise), then the value is appended to the pool.\<close>

fun add_arg_loop ::
  "real list \<Rightarrow> int pyarg option \<Rightarrow> nat \<Rightarrow> real list \<Rightarrow> int list \<Rightarrow> real list \<times> (error + int list)" where
  "add_arg_loop ps k i [] acc = (ps, Inr acc)"
| "add_arg_loop ps k i (x # xs) acc =
     (case k of
        None \<Rightarrow> add_arg_loop (ps @ [x]) k (Suc i) xs (acc @ [int (length ps)])
      | Some (Scalar _) \<Rightarrow> (ps, Inl TypeError)
      | Some (Seq l) \<Rightarrow>
          (case py_getitem l (int i) of
             Inl e \<Rightarrow> (ps, Inl e)
           | Inr j \<Rightarrow> add_arg_loop (ps @ [x]) k (Suc i) xs (acc @ [j])))"

definition add_arg ::
  "ParameterMap \<Rightarrow> real pyarg \<Rightarrow> int pyarg option \<Rightarrow> ParameterMap \<times> (error + unit)" where
  "add_arg pm args k =
     (case add_arg_loop (params pm) k 0 (case args of Scalar x \<Rightarrow> [x] | Seq xs \<Rightarrow> xs) [] of
        (ps, Inl e) \<Rightarrow> (pm\<lparr>params := ps\<rparr>, Inl e)
      | (ps, Inr acc) \<Rightarrow> (pm\<lparr>indices := indices pm @ [Some (Seq acc)], params := ps\<rparr>, Inr ()))"

definition pmap_add ::
  "ParameterMap \<Rightarrow> real pyarg option \<Rightarrow> int pyarg option \<Rightarrow> ParameterMap \<times> (error + unit)" where
  "pmap_add pm arg k =
     (case arg of
        Some a \<Rightarrow> add_arg pm a k
      | None \<Rightarrow> (case k of Some l \<Rightarrow> (link_param pm l, Inr ()) | None \<Rightarrow> (add_empty pm, Inr ())))"

definition pmap_get :: "ParameterMap \<Rightarrow> int \<Rightarrow> error + real list option" where
  "pmap_get pm i =
     (case py_getitem (indices pm) i of
        Inl e \<Rightarrow> Inl e
      | Inr None \<Rightarrow> Inr None
      | Inr (Some (Scalar _)) \<Rightarrow> Inl TypeError
      | Inr (Some (Seq ks)) \<Rightarrow>
          (case mapM_err (py_getitem (params pm)) ks of
             Inl e \<Rightarrow> Inl e
           | Inr vs \<Rightarrow> Inr (Some vs)))"

text \<open>An \<open>Instruction\<close>. A bit found by \<open>get_bit\<close> may be \<open>None\<close>, so the bit lists hold
  optional bits; an entry of \<open>qubits\<close> that is itself a list of qubits is not modelled.
  \<open>inst_size\<close> is the attribute \<open>size\<close>, \<open>inst_qubits\<close> is \<open>qubits\<close>, and \<open>inst_basis\<close> is the
  \<open>basis\<close> that only a \<open>Measurement\<close> has.\<close>

datatype inst_class = Gate | Measurement

record Instruction =
  inst_class :: inst_class
  idx :: nat
  inst_size :: nat
  name :: string
  inst_qubits :: "bit option list option"
  con :: "bit option list option"
  clbits :: "bit option list option"
  con_trigger :: nat
  inst_basis :: "string option"

text \<open>The process-wide state the constructors share: the class attribute
  \<open>Instruction.INDEX\<close> and the singleton \<open>ParameterMap.INSTANCE\<close>.\<close>

record globals =
  INDEX :: nat
  pmap :: ParameterMap

text \<open>\<open>Instruction.argidx\<close>, \<open>Instruction.args\<close> and \<open>Instruction.get_arg\<close> read the store.\<close>

definition argidx :: "ParameterMap \<Rightarrow> Instruction \<Rightarrow> error + int pyarg option" where
  "argidx pm inst = py_getitem (indices pm) (int (idx inst))"

definition args :: "ParameterMap \<Rightarrow> Instruction \<Rightarrow> error + real list option" where
  "args pm inst = pmap_get pm (int (idx inst))"

definition get_arg :: "ParameterMap \<Rightarrow> Instruction \<Rightarrow> int \<Rightarrow> error + real option" where
  "get_arg pm inst i =
     (case args pm inst of
        Inl e \<Rightarrow> Inl e
      | Inr None \<Rightarrow> Inr None
      | Inr (Some vs) \<Rightarrow> (case py_getitem vs i of Inl e \<Rightarrow> Inl e | Inr v \<Rightarrow> Inr (Some v)))"

text \<open>\<open>Instruction.__init__\<close>: takes the next index, registers its arguments with the
  store, then keeps the bit lists (\<open>to_list\<close> leaves a list as it is).\<close>

definition Instruction_init ::
  "globals \<Rightarrow> inst_class \<Rightarrow> string \<Rightarrow> bit option list option \<Rightarrow> bit option list option \<Rightarrow>
   bit option list option \<Rightarrow> nat \<Rightarrow> real pyarg option \<Rightarrow> int pyarg option \<Rightarrow> nat \<Rightarrow>
   globals \<times> (error + Instruction)" where
  "Instruction_init g c nm qs cn cl sz arg k trigger =
     (case pmap_add (pmap g) arg k of
        (pm, Inl e) \<Rightarrow> (\<lparr>INDEX = Suc (INDEX g), pmap = pm\<rparr>, Inl e)
      | (pm, Inr _) \<Rightarrow>
          (\<lparr>INDEX = Suc (INDEX g), pmap = pm\<rparr>,
           Inr \<lparr>inst_class = c, idx = INDEX g, inst_size = sz, name = nm, inst_qubits = qs,
                con = cn, clbits = cl, con_trigger = trigger, inst_basis = None\<rparr>))"

text \<open>\<open>Measurement.__init__\<close>: the classical bits default to the qubits.\<close>

definition Measurement_init ::
  "globals \<Rightarrow> string \<Rightarrow> bit option list option \<Rightarrow> bit option list option \<Rightarrow> string option \<Rightarrow>
   globals \<times> (error + Instruction)" where
  "Measurement_init g nm qs cl b =
     (case Instruction_init g Measurement nm qs None (case cl of None \<Rightarrow> qs | Some c \<Rightarrow> Some c)
             1 None None 1 of
        (g', Inl e) \<Rightarrow> (g', Inl e)
      | (g', Inr inst) \<Rightarrow> (g', Inr (inst\<lparr>inst_basis := b\<rparr>)))"

text \<open>\<open>Gate.__init__\<close>: a scalar argument or position is repeated once per qubit; after
  the base constructor, one \<open>c\<close> per control bit is put in front of the name.\<close>

definition per_qubit :: "bit option list option \<Rightarrow> 'a pyarg option \<Rightarrow> 'a pyarg option" where
  "per_qubit qs a =
     (case (qs, a) of
        (Some q, Some (Scalar x)) \<Rightarrow> Some (Seq (replicate (length q) x))
      | _ \<Rightarrow> a)"

definition Gate_init ::
  "globals \<Rightarrow> string \<Rightarrow> bit option list option \<Rightarrow> bit option list option \<Rightarrow>
   real pyarg option \<Rightarrow> int pyarg option \<Rightarrow> nat \<Rightarrow> nat \<Rightarrow> globals \<times> (error + Instruction)" where
  "Gate_init g nm qs cn arg k sz trigger =
     (case Instruction_init g Gate nm qs cn None sz (per_qubit qs arg) (per_qubit qs k) trigger of
        (g', Inl e) \<Rightarrow> (g', Inl e)
      | (g', Inr inst) \<Rightarrow>
          (g', Inr (case cn of
                      None \<Rightarrow> inst
                    | Some c \<Rightarrow> inst\<lparr>name := replicate (length c) CHR ''c'' @ name inst\<rparr>)))"

subsection \<open>Building the matrix of a gate\<close>

text \<open>\<open>str.lower\<close> and \<open>str.replace("c", "")\<close> on a name of ASCII characters.\<close>

definition lower_char :: "char \<Rightarrow> char" where
  "lower_char ch =
     (case map_of (zip ''ABCDEFGHIJKLMNOPQRSTUVWXYZ'' ''abcdefghijklmnopqrstuvwxyz'') ch of
        None \<Rightarrow> ch
      | Some l \<Rightarrow> l)"

definition str_lower :: "string \<Rightarrow> string" where
  "str_lower s = map lower_char s"

definition str_replace_c :: "string \<Rightarrow> string" where
  "str_replace_c s = filter (\<lambda>ch. ch \<noteq> CHR ''c'') s"

text \<open>\<open>gates.py\<close>, which defines \<open>GATE_DICT\<close>, \<open>cgate\<close> and \<open>single_gate\<close>, is not among the
  sources: the three are the fields of a record that \<open>build_matrix\<close> takes. An entry of
  the dictionary is called with one argument (the matrix of a single-qubit gate) or
  with three (the operator of a native multi-qubit gate); a call of the wrong shape
  raises \<open>TypeError\<close>.\<close>

datatype gate_func =
    Func1 "real option \<Rightarrow> cmat"
  | Func3 "nat \<Rightarrow> nat \<Rightarrow> real option \<Rightarrow> cmat"

record gates_py =
  GATE_DICT :: "string \<rightharpoonup> gate_func"
  cgate :: "nat list option \<Rightarrow> nat \<Rightarrow> cmat \<Rightarrow> nat \<Rightarrow> nat \<Rightarrow> cmat"
  single_gate :: "nat list \<Rightarrow> cmat list \<Rightarrow> nat \<Rightarrow> cmat"

definition call1 :: "gate_func \<Rightarrow> real option \<Rightarrow> error + cmat" where
  "call1 f a = (case f of Func1 g \<Rightarrow> Inr (g a) | Func3 g \<Rightarrow> Inl TypeError)"

definition call3 :: "gate_func \<Rightarrow> nat \<Rightarrow> nat \<Rightarrow> real option \<Rightarrow> error + cmat" where
  "call3 f q k a = (case f of Func3 g \<Rightarrow> Inr (g q k a) | Func1 g \<Rightarrow> Inl TypeError)"

text \<open>\<open>Gate.add_custom_gate\<close> and \<open>Gate._get_gatefunc\<close>.\<close>

definition add_custom_gate :: "gates_py \<Rightarrow> string \<Rightarrow> gate_func \<Rightarrow> gates_py" where
  "add_custom_gate gs nm item = gs\<lparr>GATE_DICT := (GATE_DICT gs)(nm \<mapsto> item)\<rparr>"

definition get_gatefunc :: "gates_py \<Rightarrow> string \<Rightarrow> error + gate_func" where
  "get_gatefunc gs nm =
     (case GATE_DICT gs (str_lower nm) of None \<Rightarrow> Inl KeyError | Some f \<Rightarrow> Inr f)"

text \<open>\<open>qu_indices\<close> and \<open>con_indices\<close>: the indices of the bits (reading the index of a
  missing bit raises), \<open>None\<close> for no list. \<open>is_controlled\<close> is \<open>bool(self.con)\<close>.\<close>

definition bit_indices :: "bit option list option \<Rightarrow> error + nat list option" where
  "bit_indices bs =
     (case bs of
        None \<Rightarrow> Inr None
      | Some l \<Rightarrow>
          (case mapM_err (\<lambda>b. case b of None \<Rightarrow> Inl AttributeError | Some q \<Rightarrow> Inr (index q)) l of
             Inl e \<Rightarrow> Inl e
           | Inr ks \<Rightarrow> Inr (Some ks)))"

definition qu_indices :: "Instruction \<Rightarrow> error + nat list option" where
  "qu_indices inst = bit_indices (inst_qubits inst)"

definition con_indices :: "Instruction \<Rightarrow> error + nat list option" where
  "con_indices inst = bit_indices (con inst)"

definition cl_indices :: "Instruction \<Rightarrow> error + nat list option" where
  "cl_indices inst = bit_indices (clbits inst)"

definition is_controlled :: "Instruction \<Rightarrow> bool" where
  "is_controlled inst = (case con inst of None \<Rightarrow> False | Some l \<Rightarrow> l \<noteq> [])"

text \<open>\<open>self.qu_indices[i]\<close>: subscripting \<open>None\<close> raises \<open>TypeError\<close>.\<close>

definition qu_index :: "Instruction \<Rightarrow> int \<Rightarrow> error + nat" where
  "qu_index inst i =
     (case qu_indices inst of
        Inl e \<Rightarrow> Inl e
      | Inr None \<Rightarrow> Inl TypeError
      | Inr (Some ks) \<Rightarrow> py_getitem ks i)"

text \<open>\<open>Gate._qubit_gate_matrix\<close>.\<close>

definition qubit_gate_matrix ::
  "gates_py \<Rightarrow> ParameterMap \<Rightarrow> Instruction \<Rightarrow> nat \<Rightarrow> error + cmat" where
  "qubit_gate_matrix gs pm inst i =
     (case get_arg pm inst (int i) of
        Inl e \<Rightarrow> Inl e
      | Inr a \<Rightarrow> (case get_gatefunc gs (name inst) of Inl e \<Rightarrow> Inl e | Inr f \<Rightarrow> call1 f a))"

text \<open>The loop of the branch \<open>size > 1\<close>, over \<open>range(1, n_gates)\<close>.\<close>

fun block_loop ::
  "gate_func \<Rightarrow> ParameterMap \<Rightarrow> Instruction \<Rightarrow> nat \<Rightarrow> cmat \<Rightarrow> nat list \<Rightarrow> error + cmat" where
  "block_loop f pm inst k arr [] = Inr arr"
| "block_loop f pm inst k arr (i # rest) =
     (case qu_index inst (int i) of
        Inl e \<Rightarrow> Inl e
      | Inr q \<Rightarrow>
     (case get_arg pm inst (int i) of
        Inl e \<Rightarrow> Inl e
      | Inr a \<Rightarrow>
     (case call3 f q k a of
        Inl e \<Rightarrow> Inl e
      | Inr m \<Rightarrow>
     (case np_dot_mm arr m of
        Inl e \<Rightarrow> Inl e
      | Inr arr' \<Rightarrow> block_loop f pm inst k arr' rest))))"

text \<open>\<open>Gate.build_matrix\<close>. A controlled gate looks its function up under its name with
  every \<open>c\<close> removed.\<close>

definition build_matrix ::
  "gates_py \<Rightarrow> ParameterMap \<Rightarrow> Instruction \<Rightarrow> nat \<Rightarrow> error + cmat" where
  "build_matrix gs pm inst k =
     (if is_controlled inst then
        (case get_gatefunc gs (str_replace_c (name inst)) of
           Inl e \<Rightarrow> Inl e
         | Inr f \<Rightarrow>
        (case get_arg pm inst 0 of
           Inl e \<Rightarrow> Inl e
         | Inr a \<Rightarrow>
        (case call1 f a of
           Inl e \<Rightarrow> Inl e
         | Inr gate_arr \<Rightarrow>
        (case con_indices inst of
           Inl e \<Rightarrow> Inl e
         | Inr cs \<Rightarrow>
        (case qu_index inst 0 of
           Inl e \<Rightarrow> Inl e
         | Inr q \<Rightarrow> Inr (cgate gs cs q gate_arr k (con_trigger inst)))))))
      else if 1 < inst_size inst then
        (case qu_indices inst of
           Inl e \<Rightarrow> Inl e
         | Inr None \<Rightarrow> Inl TypeError
         | Inr (Some ks) \<Rightarrow>
        (case get_gatefunc gs (name inst) of
           Inl e \<Rightarrow> Inl e
         | Inr f \<Rightarrow>
        (case qu_index inst 0 of
           Inl e \<Rightarrow> Inl e
         | Inr q \<Rightarrow>
        (case get_arg pm inst 0 of
           Inl e \<Rightarrow> Inl e
         | Inr a \<Rightarrow>
        (case call3 f q k a of
           Inl e \<Rightarrow> Inl e
         | Inr arr \<Rightarrow> block_loop f pm inst k arr [1..<length ks])))))
      else
        (case qu_indices inst of
           Inl e \<Rightarrow> Inl e
         | Inr None \<Rightarrow> Inl TypeError
         | Inr (Some ks) \<Rightarrow>
        (case mapM_err (qubit_gate_matrix gs pm inst) [0..<length ks] of
           Inl e \<Rightarrow> Inl e
         | Inr ms \<Rightarrow> Inr (single_gate gs ks ms k))))"

section \<open>The text format (\<open>instruction.py\<close>, \<open>circuit.py\<close>)\<close>

text \<open>Modelled from the spec: \<open>str_to_list\<close> and \<open>get_info\<close> of \<open>utils.py\<close> are not among the
  sources; by the round trip contract of the spec they read the text of a value back
  as the value that was written.

  One line of the text format is the sequence of fields \<open>key=value; \<close> that
  \<open>Instruction.to_string\<close> writes from \<open>to_dict\<close> and that \<open>Instruction.from_string\<close> splits
  into the dictionary \<open>args\<close>. A line is kept here as that dictionary, each value being
  the Python value whose text the field holds, so that formatting a single value and
  parsing it give the value back. The field names are the keys \<open>idx\<close>, \<open>name\<close>, \<open>qbits\<close>,
  \<open>con\<close>, \<open>cbits\<close>, \<open>arg\<close>, \<open>argidx\<close>.\<close>

record fields =
  f_idx :: nat
  f_name :: string
  f_qbits :: "nat list option"
  f_con :: "nat list option"
  f_cbits :: "nat list option"
  f_arg :: "real list option"
  f_argidx :: "int pyarg option"

text \<open>\<open>Instruction.to_dict\<close> and \<open>Instruction.to_string\<close>; the properties are read in the
  order of the keyword arguments.\<close>

definition to_string :: "ParameterMap \<Rightarrow> Instruction \<Rightarrow> error + fields" where
  "to_string pm inst =
     (case qu_indices inst of
        Inl e \<Rightarrow> Inl e
      | Inr qs \<Rightarrow>
     (case con_indices inst of
        Inl e \<Rightarrow> Inl e
      | Inr cs \<Rightarrow>
     (case cl_indices inst of
        Inl e \<Rightarrow> Inl e
      | Inr cl \<Rightarrow>
     (case args pm inst of
        Inl e \<Rightarrow> Inl e
      | Inr a \<Rightarrow>
     (case argidx pm inst of
        Inl e \<Rightarrow> Inl e
      | Inr k \<Rightarrow>
          Inr \<lparr>f_idx = idx inst, f_name = name inst, f_qbits = qs, f_con = cs, f_cbits = cl,
               f_arg = a, f_argidx = k\<rparr>)))))"

text \<open>\<open>get_bit\<close>: the first bit of the list with the index, \<open>None\<close> when there is none.\<close>

definition get_bit :: "bit list \<Rightarrow> nat \<Rightarrow> bit option" where
  "get_bit bit_list k = find (\<lambda>b. index b = k) bit_list"

text \<open>\<open>Instruction.from_string\<close>. The classical bits are looked up from \<open>args["qbits"]\<close>,
  as the source has it. A gate is rebuilt with the default size and trigger, from the
  name that was written.\<close>

definition from_string ::
  "globals \<Rightarrow> fields \<Rightarrow> bit list \<Rightarrow> bit list \<Rightarrow> globals \<times> (error + Instruction)" where
  "from_string g line qubit_list clbit_list =
     (let nm = f_name line;
          qs = map_option (map (get_bit qubit_list)) (f_qbits line);
          cn = map_option (map (get_bit qubit_list)) (f_con line);
          cl = map_option (map (get_bit clbit_list)) (f_qbits line);
          arg = map_option Seq (f_arg line);
          k = f_argidx line
      in if str_lower nm = ''m'' then Measurement_init g nm qs cl None
         else Gate_init g nm qs cn arg k 1 1)"

text \<open>A \<open>Circuit\<close>: its two registers, as the lists of their bits, and its instructions
  (the backend engine and the basis play no part in the text format).

  Modelled from the spec: \<open>QuRegister\<close> and \<open>ClRegister\<close> of \<open>register.py\<close> are not among the
  sources. A register built from a number \<open>k\<close> holds the bits of index \<open>0\<close> to \<open>k - 1\<close>,
  as \<open>init_bits\<close> of \<open>qsim2/circuit.py\<close> builds them.\<close>

record Circuit =
  qureg :: "bit list"
  clreg :: "bit list"
  instructions :: "Instruction list"

definition Circuit_init :: "nat \<Rightarrow> nat option \<Rightarrow> Circuit" where
  "Circuit_init nq nc =
     \<lparr>qureg = map Qubit [0..<nq],
      clreg = map Clbit [0..<(case nc of None \<Rightarrow> nq | Some k \<Rightarrow> k)],
      instructions = []\<rparr>"

definition circuit_add :: "Circuit \<Rightarrow> Instruction \<Rightarrow> Circuit" where
  "circuit_add c inst = c\<lparr>instructions := instructions c @ [inst]\<rparr>"

text \<open>The text of a circuit: the header line with the two counts, then one line per
  instruction.\<close>

record circuit_text =
  t_qubits :: nat
  t_clbits :: nat
  t_lines :: "fields list"

definition Circuit_to_string :: "ParameterMap \<Rightarrow> Circuit \<Rightarrow> error + circuit_text" where
  "Circuit_to_string pm c =
     (case mapM_err (to_string pm) (instructions c) of
        Inl e \<Rightarrow> Inl e
      | Inr ls \<Rightarrow>
          Inr \<lparr>t_qubits = length (qureg c), t_clbits = length (clreg c), t_lines = ls\<rparr>)"

fun from_string_loop ::
  "globals \<Rightarrow> Circuit \<Rightarrow> fields list \<Rightarrow> globals \<times> (error + Circuit)" where
  "from_string_loop g c [] = (g, Inr c)"
| "from_string_loop g c (line # rest) =
     (case from_string g line (qureg c) (clreg c) of
        (g', Inl e) \<Rightarrow> (g', Inl e)
      | (g', Inr inst) \<Rightarrow> from_string_loop g' (circuit_add c inst) rest)"

definition Circuit_from_string :: "globals \<Rightarrow> circuit_text \<Rightarrow> globals \<times> (error + Circuit)" where
  "Circuit_from_string g t =
     from_string_loop g (Circuit_init (t_qubits t) (Some (t_clbits t))) (t_lines t)"

section \<open>Example inputs\<close>

text \<open>A fresh process: no instruction created yet, the store empty.\<close>

definition empty_globals :: globals where
  "empty_globals = \<lparr>INDEX = 0, pmap = \<lparr>indices = [], params = []\<rparr>\<rparr>"

text \<open>Two \<open>Rx\<close> gates that share pool position 0, and the process state after each.\<close>

definition shared_rx0 :: Instruction where
  "shared_rx0 = \<lparr>inst_class = Gate, idx = 0, inst_size = 1, name = ''Rx'',
     inst_qubits = Some [Some (Qubit 0)], con = None, clbits = None, con_trigger = 1,
     inst_basis = None\<rparr>"

definition shared_rx1 :: Instruction where
  "shared_rx1 = \<lparr>inst_class = Gate, idx = 1, inst_size = 1, name = ''Rx'',
     inst_qubits = Some [Some (Qubit 1)], con = None, clbits = None, con_trigger = 1,
     inst_basis = None\<rparr>"

definition shared_g1 :: globals where
  "shared_g1 = \<lparr>INDEX = 1, pmap = \<lparr>indices = [Some (Seq [0])], params = [1 / 2]\<rparr>\<rparr>"

definition shared_g2 :: globals where
  "shared_g2 =
     \<lparr>INDEX = 2, pmap = \<lparr>indices = [Some (Seq [0]), Some (Seq [0])], params = [1 / 2, 0]\<rparr>\<rparr>"

text \<open>A one-qubit engine in the state \<open>|0>\<close>, as \<open>StateVector([Qubit(0)])\<close> builds it.\<close>

definition sv_one_qubit :: StateVector where
  "sv_one_qubit = StateVector 1 2 [Qubit 0] (Basis 1) [1, 0] []"

text \<open>A one-qubit engine in the state \<open>|1>\<close>.\<close>

definition sv_excited :: StateVector where
  "sv_excited = StateVector 1 2 [Qubit 0] (Basis 1) [0, 1] []"

text \<open>A one-qubit engine in the superposition \<open>(3/5, 4/5)\<close>, of norm 1.\<close>

definition sv_tilted :: StateVector where
  "sv_tilted = StateVector 1 2 [Qubit 0] (Basis 1) [3 / 5, 4 / 5] []"

text \<open>A stand-in for \<open>get_projector\<close> that returns a matrix which is not Hermitian.\<close>

definition skew_projector :: "cvec \<Rightarrow> cmat" where
  "skew_projector v = [[\<i>, 0], [0, 0]]"

text \<open>The Pauli X matrix.\<close>

definition X_GATE :: cmat where
  "X_GATE = [[0, 1], [1, 0]]"

section \<open>Verification\<close>

subsection \<open>The density matrix\<close>

text \<open>What the code computes: entry \<open>(i, j)\<close> is the plain product of two amplitudes.\<close>

lemma density_matrix_entry:
  assumes "i < length (amp st)" and "j < length (amp st)"
  shows "\<exists>m. density_matrix st = Inr m \<and> m ! i ! j = amp st ! i * amp st ! j"
  using assms
  by (simp add: density_matrix_def np_dot_mm_def np_transpose_def dot_def list_all_iff)

text \<open>C5: the density matrix is the outer product of the amplitude vector with its
  conjugate transpose, entry \<open>(i, j)\<close> being \<open>amp[i]\<close> times the conjugate of \<open>amp[j]\<close>. The
  code multiplies without conjugating: for the one-qubit state \<open>(0, i)\<close>, which \<open>set\<close>
  accepts as normalized, it returns the diagonal entry \<open>-1\<close> where the outer product has
  \<open>1\<close>.\<close>

theorem density_matrix_omits_conjugate:
  "\<exists>st. StateVector_init [Qubit 0] None (Some [0, \<i>]) = Inr st \<and> amp st = [0, \<i>]
      \<and> density_matrix st = Inr [[0, 0], [0, - 1]]
      \<and> amp st ! 1 * cnj (amp st ! 1) = 1"
  by (simp add: StateVector_init_def set_qubits_def sv_set_def la_norm_def np_round_def
      rint_def with_amp_def np_div_def density_matrix_def np_dot_mm_def np_transpose_def dot_def)

subsection \<open>Shared parameters\<close>

lemma py_getitem_nat: "k < length xs \<Longrightarrow> py_getitem xs (int k) = Inr (xs ! k)"
  by (simp add: py_getitem_def)

lemma mapM_err_getitem:
  "list_all (\<lambda>k. 0 \<le> k \<and> k < int (length vals)) ks \<Longrightarrow>
   mapM_err (py_getitem vals) ks = Inr (map (\<lambda>k. vals ! nat k) ks)"
  by (induction ks) (auto simp: py_getitem_def)

lemma pmap_get_set:
  assumes "i < length (indices pm)" and "indices pm ! i = Some (Seq ks)"
    and "list_all (\<lambda>k. 0 \<le> k \<and> k < int (length vals)) ks"
  shows "pmap_get (pmap_set pm vals) (int i) = Inr (Some (map (\<lambda>k. vals ! nat k) ks))"
  using assms by (simp add: pmap_get_def pmap_set_def py_getitem_nat mapM_err_getitem)

text \<open>C6: when the store entries of two instructions are linked to the same pool
  position \<open>p\<close>, then after \<open>set(vals)\<close> both instructions read the value that \<open>vals\<close> has
  at \<open>p\<close> (for \<open>set([\<theta>])\<close> and position \<open>0\<close>, the value \<open>\<theta>\<close>), as \<open>args\<close> and as
  \<open>get_arg\<close>, which \<open>build_matrix\<close> calls; the recorded index entries are unchanged.\<close>

theorem shared_parameters:
  assumes "idx a < length (indices pm)" and "idx b < length (indices pm)"
    and "indices pm ! idx a = Some (Seq [p])" and "indices pm ! idx b = Some (Seq [p])"
    and "0 \<le> p" and "p < int (length vals)"
  shows "args (pmap_set pm vals) a = Inr (Some [vals ! nat p])
       \<and> args (pmap_set pm vals) b = Inr (Some [vals ! nat p])
       \<and> get_arg (pmap_set pm vals) a 0 = Inr (Some (vals ! nat p))
       \<and> get_arg (pmap_set pm vals) b 0 = Inr (Some (vals ! nat p))
       \<and> argidx (pmap_set pm vals) a = argidx pm a
       \<and> argidx (pmap_set pm vals) b = argidx pm b
       \<and> indices (pmap_set pm vals) = indices pm"
proof -
  have a: "args (pmap_set pm vals) a = Inr (Some [vals ! nat p])"
    using assms pmap_get_set [of "idx a" pm "[p]" vals] by (simp add: args_def)
  have b: "args (pmap_set pm vals) b = Inr (Some [vals ! nat p])"
    using assms pmap_get_set [of "idx b" pm "[p]" vals] by (simp add: args_def)
  have i: "indices (pmap_set pm vals) = indices pm"
    by (simp add: pmap_set_def)
  show ?thesis
    using a b i by (simp add: get_arg_def argidx_def py_getitem_def)
qed

text \<open>An instance: \<open>Rx\<close> on qubit 0 with its own angle \<open>1/2\<close>, then \<open>Rx\<close> on qubit 1 linked
  to pool position 0 (with the default angle 0 that \<open>Gate.rx\<close> passes along); after
  \<open>set([3])\<close> both gates read 3.\<close>

theorem shared_parameters_witness:
  "Gate_init empty_globals ''Rx'' (Some [Some (Qubit 0)]) None (Some (Scalar (1 / 2))) None 1 1
     = (shared_g1, Inr shared_rx0)
   \<and> Gate_init shared_g1 ''Rx'' (Some [Some (Qubit 1)]) None (Some (Scalar 0)) (Some (Seq [0])) 1 1
     = (shared_g2, Inr shared_rx1)
   \<and> indices (pmap shared_g2) ! idx shared_rx0 = Some (Seq [0])
   \<and> indices (pmap shared_g2) ! idx shared_rx1 = Some (Seq [0])
   \<and> get_arg (pmap shared_g2) shared_rx0 0 = Inr (Some (1 / 2))
   \<and> get_arg (pmap_set (pmap shared_g2) [3]) shared_rx0 0 = Inr (Some 3)
   \<and> get_arg (pmap_set (pmap shared_g2) [3]) shared_rx1 0 = Inr (Some 3)
   \<and> indices (pmap_set (pmap shared_g2) [3]) = indices (pmap shared_g2)"
  using shared_parameters [of shared_rx0 "pmap shared_g2" shared_rx1 0 "[3]"]
  by (simp add: shared_g1_def shared_g2_def shared_rx0_def shared_rx1_def empty_globals_def
      Gate_init_def Instruction_init_def per_qubit_def pmap_add_def add_arg_def py_getitem_def
      get_arg_def args_def pmap_get_def pmap_set_def argidx_def)

subsection \<open>Setting the state\<close>

lemma np_kron_v_ZERO: "np_kron_v ZERO v = v @ replicate (length v) 0"
proof -
  have a: "map ((*) (1::complex)) v = v"
    by (induction v) simp_all
  have b: "map ((*) (0::complex)) v = replicate (length v) 0"
    by (induction v) simp_all
  show ?thesis
    using a b by (simp add: np_kron_v_def ZERO_def)
qed

lemma kron_v_ZERO: "kron_v (replicate k ZERO) = 1 # replicate (2 ^ k - 1) 0"
proof (induction k)
  case 0
  show ?case by simp
next
  case (Suc k)
  have "(2::nat) ^ k - 1 + 2 ^ k = 2 * 2 ^ k - 1"
    by (simp add: algebra_simps)
  then show ?case
    using Suc by (simp add: np_kron_v_ZERO replicate_add [symmetric])
qed

lemma la_norm_unit: "la_norm (1 # replicate m 0) = 1"
  by (simp add: la_norm_def map_replicate_const sum_list_replicate)

lemma np_round_one: "np_round 1 10 = 1"
  by (simp add: np_round_def rint_def)

lemma np_div_one: "np_div v 1 = v"
  by (simp add: np_div_def)

lemma sv_set_default:
  assumes "n_dim st = 2 ^ n_qubits st"
  shows "sv_set st None = (with_amp st (1 # replicate (2 ^ n_qubits st - 1) 0), Inr ())"
  using assms
  by (simp add: sv_set_def kron_v_ZERO la_norm_unit np_round_one np_div_one)

text \<open>C3, as the code has it. \<open>set\<close> checks the length first, so a vector of the wrong
  length raises the dimension error whatever its norm: at the one-qubit engine the
  vector \<open>(2)\<close> has rounded norm 2, and the error is the dimension error, not the
  not-normalized one.\<close>

theorem sv_set_not_normalized_counterexample:
  "\<not> (snd (sv_set sv_one_qubit (Some [2])) = Inl ValueError_NotNormalized
        \<longleftrightarrow> np_round (la_norm [2]) 10 \<noteq> 1)"
  by (simp add: sv_set_def sv_one_qubit_def la_norm_def np_round_def rint_def)

text \<open>C3, amended: on an engine whose \<open>n\<close> is \<open>2 ^ n_qubits\<close>, \<open>set\<close> raises the dimension
  error exactly when the length of the supplied vector differs from \<open>2 ^ n_qubits\<close>; it
  raises the not-normalized error exactly when the length is right and the norm rounded
  to 10 decimals differs from 1; otherwise the state becomes the vector divided by its
  norm. With no vector supplied the state becomes the first basis vector, the all-zero
  product state.\<close>

theorem sv_set_outcomes:
  assumes "n_dim st = 2 ^ n_qubits st"
  shows "(snd (sv_set st (Some v)) = Inl ValueError_Dimensions \<longleftrightarrow> length v \<noteq> 2 ^ n_qubits st)
       \<and> (snd (sv_set st (Some v)) = Inl ValueError_NotNormalized
            \<longleftrightarrow> length v = 2 ^ n_qubits st \<and> np_round (la_norm v) 10 \<noteq> 1)
       \<and> (length v = 2 ^ n_qubits st \<and> np_round (la_norm v) 10 = 1
            \<longrightarrow> sv_set st (Some v) = (with_amp st (np_div v (la_norm v)), Inr ()))
       \<and> sv_set st None = (with_amp st (1 # replicate (2 ^ n_qubits st - 1) 0), Inr ())"
  using assms sv_set_default [OF assms] by (simp add: sv_set_def)

theorem sv_set_outcomes_witness:
  "n_dim sv_one_qubit = 2 ^ n_qubits sv_one_qubit
   \<and> sv_set sv_one_qubit (Some [0, \<i>]) = (with_amp sv_one_qubit [0, \<i>], Inr ())
   \<and> snd (sv_set sv_one_qubit (Some [2, 0])) = Inl ValueError_NotNormalized
   \<and> snd (sv_set sv_one_qubit (Some [2])) = Inl ValueError_Dimensions
   \<and> sv_set sv_one_qubit None = (with_amp sv_one_qubit [1, 0], Inr ())"
  using sv_set_outcomes [of sv_one_qubit "[0, \<i>]"] sv_set_outcomes [of sv_one_qubit "[2, 0]"]
    sv_set_outcomes [of sv_one_qubit "[2]"]
  by (simp add: sv_one_qubit_def la_norm_def np_round_def rint_def np_div_def)

subsection \<open>Measurement: the steps of \<open>measure\<close>\<close>

lemma length_product_bits: "length (product_bits k) = 2 ^ k"
  by (induction k) simp_all

lemma product_bits_length: "res \<in> set (product_bits k) \<Longrightarrow> length res = k"
  by (induction k arbitrary: res) auto

lemma py_getitem_error: "py_getitem xs i = Inl e \<Longrightarrow> e = IndexError"
  by (auto simp: py_getitem_def Let_def split: if_splits)

lemma py_getitem_int: "py_getitem xs (int k) = Inr x \<longleftrightarrow> k < length xs \<and> x = xs ! k"
  by (auto simp: py_getitem_def)

lemma mapM_err_error:
  "mapM_err f xs = Inl e \<Longrightarrow> \<exists>x \<in> set xs. f x = Inl e"
  by (induction xs) (auto split: sum.splits)

lemma mapM_err_result:
  "mapM_err (\<lambda>i. py_getitem vals (int i)) res = Inr result \<Longrightarrow>
   result = map (\<lambda>i. vals ! i) res \<and> list_all (\<lambda>i. i < length vals) res"
  by (induction res arbitrary: result) (auto simp: py_getitem_int split: sum.splits)

lemma set_parts_error: "set_parts gp vecs parts zs = Inl e \<Longrightarrow> e = IndexError"
  by (induction gp vecs parts zs rule: set_parts.induct) (auto split: if_splits)

lemma project_outcome_error:
  "project_outcome gp st qs vecs res = Inl e \<Longrightarrow> e = IndexError \<or> e = ValueError_Shape"
  by (auto simp: project_outcome_def np_dot_mv_def np_dot_vv_def
      split: sum.splits if_splits dest: set_parts_error)

lemma store_row_error: "store_row k v = Inl e \<Longrightarrow> e = ValueError_Shape"
  by (auto simp: store_row_def split: if_splits)

lemma measure_loop_error:
  "measure_loop gp st qs vecs rs = Inl e \<Longrightarrow>
   e = IndexError \<or> e = ValueError_Shape \<or> e = ValueError_ComplexProbability"
  by (induction rs arbitrary: e)
     (auto split: sum.splits prod.splits if_splits dest: project_outcome_error store_row_error)

lemma measure_loop_length:
  "measure_loop gp st qs vecs rs = Inr (probs, projections) \<Longrightarrow>
   length probs = length rs \<and> length projections = length rs"
  by (induction rs arbitrary: probs projections)
     (auto split: sum.splits prod.splits if_splits)

lemma measure_loop_nth:
  "measure_loop gp st qs vecs rs = Inr (probs, projections) \<Longrightarrow> k < length rs \<Longrightarrow>
   \<exists>projected p. project_outcome gp st qs vecs (rs ! k) = Inr (projected, p)
     \<and> store_row (n_dim st) projected = Inr (projections ! k)
     \<and> probs ! k = Re p \<and> \<bar>Im p\<bar> \<le> 1 / 10 ^ 15"
proof (induction rs arbitrary: probs projections k)
  case Nil
  then show ?case by simp
next
  case (Cons r rs)
  then show ?case
    by (cases k) (auto split: sum.splits prod.splits if_splits)
qed

lemma save_snapshot_error:
  "save_snapshot st = (st1, Inl e) \<Longrightarrow>
   st1 = st \<and> (e = ValueError_Dimensions \<or> e = ValueError_NotNormalized)"
  by (auto simp: save_snapshot_def StateVector_init_def set_qubits_def sv_set_def Let_def
      split: sum.splits prod.splits if_splits)

text \<open>C10: a call of \<open>measure\<close> with \<open>shadow=True\<close> leaves the engine as it was, the
  amplitude vector and the snapshot log included, whatever the snapshot flag is and
  whether the call returns or raises; what it returns is what the collapsing call
  without snapshot returns, the list of sampled eigenvalues.\<close>

theorem measure_shadow_frame:
  "fst (measure gp choice st qs eigvals eigvecs True snap) = st
   \<and> amp (fst (measure gp choice st qs eigvals eigvecs True snap)) = amp st
   \<and> snapshots (fst (measure gp choice st qs eigvals eigvecs True snap)) = snapshots st
   \<and> snd (measure gp choice st qs eigvals eigvecs True snap)
       = snd (measure gp choice st qs eigvals eigvecs False False)"
  by (auto simp: measure_def split: sum.splits prod.splits option.splits)

subsection \<open>Measurement: collapse\<close>

lemma save_snapshot_ok:
  assumes "save_snapshot st = (st1, Inr u)"
  shows "\<exists>s. StateVector_init (qubits st) (Some (basis st)) (Some (amp st)) = Inr s
           \<and> amp s = np_div (amp st) (la_norm (amp st))
           \<and> snapshots s = []
           \<and> st1 = with_snapshots st (snapshots st @ [s])"
  using assms
  by (auto simp: save_snapshot_def StateVector_init_def set_qubits_def sv_set_def Let_def
      with_amp_def split: sum.splits prod.splits if_splits)

text \<open>What a returning call of \<open>measure\<close> with \<open>shadow=False\<close> has done.\<close>

lemma measure_collapse_steps:
  assumes "measure gp choice st qs eigvals eigvecs False snap = (st', Inr result)"
  shows "\<exists>vals vecs probs projections k projected p.
      measure_basis eigvals eigvecs = Inr (vals, vecs)
    \<and> measure_loop gp st qs vecs (product_bits (length qs)) = Inr (probs, projections)
    \<and> choice probs = Some k \<and> k < 2 ^ length qs
    \<and> project_outcome gp st qs vecs (product_bits (length qs) ! k) = Inr (projected, p)
    \<and> store_row (n_dim st) projected = Inr (projections ! k)
    \<and> result = map (\<lambda>i. vals ! i) (product_bits (length qs) ! k)
    \<and> length result = length qs
    \<and> amp st' = np_div (projections ! k) (la_norm (projections ! k))
    \<and> (if snap
        then \<exists>s. StateVector_init (qubits st) (Some (basis st)) (Some (amp st)) = Inr s
               \<and> amp s = np_div (amp st) (la_norm (amp st))
               \<and> (la_norm (amp st) = 1 \<longrightarrow> amp s = amp st)
               \<and> snapshots st' = snapshots st @ [s]
        else snapshots st' = snapshots st)
    \<and> n_qubits st' = n_qubits st \<and> n_dim st' = n_dim st
    \<and> qubits st' = qubits st \<and> basis st' = basis st"
proof -
  from assms obtain vals vecs where b: "measure_basis eigvals eigvecs = Inr (vals, vecs)"
    by (auto simp: measure_def split: sum.splits)
  from assms b obtain probs projections where
    l: "measure_loop gp st qs vecs (product_bits (length qs)) = Inr (probs, projections)"
    by (auto simp: measure_def split: sum.splits)
  from assms b l obtain k where c: "choice probs = Some k"
    by (auto simp: measure_def split: option.splits)
  from assms b l c obtain res where
    g: "py_getitem (product_bits (length qs)) (int k) = Inr res"
    by (auto simp: measure_def split: sum.splits)
  from assms b l c g obtain r where
    m: "mapM_err (\<lambda>i. py_getitem vals (int i)) res = Inr r"
    by (auto simp: measure_def split: sum.splits)
  from g have k: "k < 2 ^ length qs" and res: "res = product_bits (length qs) ! k"
    by (simp_all add: py_getitem_int length_product_bits)
  from k have "res \<in> set (product_bits (length qs))"
    using res by (simp add: length_product_bits)
  then have len: "length res = length qs"
    by (rule product_bits_length)
  from m have r: "r = map (\<lambda>i. vals ! i) res"
    by (simp add: mapM_err_result)
  from k obtain projected p where
    po: "project_outcome gp st qs vecs (product_bits (length qs) ! k) = Inr (projected, p)"
    and sr: "store_row (n_dim st) projected = Inr (projections ! k)"
    using measure_loop_nth [OF l, of k] by (auto simp: length_product_bits)
  let ?a = "np_div (projections ! k) (la_norm (projections ! k))"
  have fin: "result = r \<and> amp st' = ?a
    \<and> (if snap
        then \<exists>s. StateVector_init (qubits st) (Some (basis st)) (Some (amp st)) = Inr s
               \<and> amp s = np_div (amp st) (la_norm (amp st))
               \<and> (la_norm (amp st) = 1 \<longrightarrow> amp s = amp st)
               \<and> snapshots st' = snapshots st @ [s]
        else snapshots st' = snapshots st)
    \<and> n_qubits st' = n_qubits st \<and> n_dim st' = n_dim st
    \<and> qubits st' = qubits st \<and> basis st' = basis st"
  proof (cases snap)
    case False
    with assms b l c g m show ?thesis
      by (auto simp: measure_def with_amp_def)
  next
    case True
    with assms b l c g m obtain st1 u where ss: "save_snapshot st = (st1, Inr u)"
      and st': "st' = with_amp st1 ?a" and rr: "result = r"
      by (auto simp: measure_def split: prod.splits sum.splits)
    from save_snapshot_ok [OF ss] obtain s where
      s: "StateVector_init (qubits st) (Some (basis st)) (Some (amp st)) = Inr s"
        "amp s = np_div (amp st) (la_norm (amp st))"
        "st1 = with_snapshots st (snapshots st @ [s])"
      by blast
    have "la_norm (amp st) = 1 \<longrightarrow> amp s = amp st"
      using s(2) by (simp add: np_div_def)
    with s st' rr True show ?thesis
      by (auto simp: with_amp_def with_snapshots_def)
  qed
  show ?thesis
    using b l c k po sr r res len fin by auto
qed

text \<open>The definitions that evaluating a call of \<open>measure\<close> on a concrete engine unfolds.\<close>

lemmas measure_eval =
  measure_def measure_basis_def project_outcome_def store_row_def np_kron_m_def np_kron_v_def
  eye_def get_projector_def ZERO_def ONE_def np_dot_mv_def np_dot_vv_def dot_def py_getitem_def
  save_snapshot_def StateVector_init_def set_qubits_def sv_set_def la_norm_def np_round_def
  rint_def with_amp_def with_snapshots_def np_div_def sv_one_qubit_def np_transpose_def
  sv_excited_def sv_tilted_def skew_projector_def

subsection \<open>Measurement: the eigenbasis arguments\<close>

text \<open>C8, as the code has it. Eigenvectors passed without eigenvalues raise nothing:
  the call below passes the (unnormalized) x-basis as \<open>eigvecs\<close> and no \<open>eigvals\<close>, and
  returns the computational-basis result 0 for the engine in \<open>|0>\<close>.\<close>

theorem measure_eigvecs_alone_counterexample:
  "measure get_projector (\<lambda>probs. Some 0) sv_one_qubit [Qubit 0] None (Some [[1, 1], [1, - 1]])
     False True
   = (StateVector 1 2 [Qubit 0] (Basis 1) [1, 0] [sv_one_qubit], Inr [0])"
  by (simp add: measure_eval)

lemma project_error: "project st i op = Inl e \<Longrightarrow> e = IndexError \<or> e = ValueError_Shape"
  by (auto simp: project_def np_dot_mv_def split: if_splits)

lemma measure_qubit_missing_eigenvectors:
  "measure_qubit gp rnd st q (Some vals) None shadow = (st, Inl ValueError_NoEigenvectors)
   \<and> measure_qubit gp rnd st q None eigvecs shadow = measure_qubit gp rnd st q None None shadow
   \<and> snd (measure_qubit gp rnd st q None eigvecs shadow) \<noteq> Inl ValueError_NoEigenvectors"
  by (auto simp: measure_qubit_def Let_def np_dot_vv_def
      split: sum.splits prod.splits option.splits if_splits
      dest: project_error py_getitem_error)

text \<open>C8, amended: \<open>measure\<close> raises the missing-parameter error whenever eigenvalues are
  passed without eigenvectors, and leaves the engine as it was. When no eigenvalues are
  passed, the computational basis with eigenvalues 0 and 1 is used, eigenvectors that
  were passed are ignored (the call behaves as the call without them), and the
  missing-parameter error is not raised. The single-qubit form \<open>measure_qubit\<close> does the
  same.\<close>

theorem measure_missing_eigenvectors:
  "measure gp choice st qs (Some vals) None shadow snap = (st, Inl ValueError_NoEigenvectors)
   \<and> measure_basis None eigvecs = Inr ([0, 1], [ZERO, ONE])
   \<and> measure gp choice st qs None eigvecs shadow snap = measure gp choice st qs None None shadow snap
   \<and> snd (measure gp choice st qs None eigvecs shadow snap) \<noteq> Inl ValueError_NoEigenvectors
   \<and> measure_qubit gp rnd st q (Some vals) None shadow = (st, Inl ValueError_NoEigenvectors)
   \<and> measure_qubit gp rnd st q None eigvecs shadow = measure_qubit gp rnd st q None None shadow
   \<and> snd (measure_qubit gp rnd st q None eigvecs shadow) \<noteq> Inl ValueError_NoEigenvectors"
proof -
  have "snd (measure gp choice st qs None eigvecs shadow snap) \<noteq> Inl ValueError_NoEigenvectors"
    by (auto simp: measure_def measure_basis_def
        split: sum.splits prod.splits option.splits if_splits
        dest: measure_loop_error py_getitem_error save_snapshot_error mapM_err_error)
  moreover have "measure gp choice st qs (Some vals) None shadow snap
      = (st, Inl ValueError_NoEigenvectors)"
    by (simp add: measure_def measure_basis_def)
  moreover have "measure_basis None eigvecs = Inr ([0, 1], [ZERO, ONE])"
    by (simp add: measure_basis_def)
  moreover have "measure gp choice st qs None eigvecs shadow snap
      = measure gp choice st qs None None shadow snap"
    by (simp add: measure_def measure_basis_def)
  ultimately show ?thesis
    using measure_qubit_missing_eigenvectors [of gp rnd st q vals shadow eigvecs]
    by blast
qed

subsection \<open>Measurement: complex probabilities\<close>

lemma measure_loop_complex:
  assumes "list_all
       (\<lambda>res. case project_outcome gp st qs vecs res of
                 Inl e \<Rightarrow> False
               | Inr (projected, p) \<Rightarrow>
                   (case store_row (n_dim st) projected of Inl e \<Rightarrow> False | Inr row \<Rightarrow> True)) rs"
  shows "if list_ex
       (\<lambda>res. case project_outcome gp st qs vecs res of
                 Inl e \<Rightarrow> False
               | Inr (projected, p) \<Rightarrow> 1 / 10 ^ 15 < \<bar>Im p\<bar>) rs
     then measure_loop gp st qs vecs rs = Inl ValueError_ComplexProbability
     else \<exists>x. measure_loop gp st qs vecs rs = Inr x"
  using assms
  by (induction rs) (auto split: sum.splits prod.splits if_splits)

text \<open>C7: take a call of \<open>measure\<close> whose eigenbasis is given and in which every one of
  the \<open>2 ^ k\<close> outcomes has its probability computed. If the probability of some outcome
  has an imaginary part of absolute value above \<open>1e-15\<close>, the call raises the
  complex-probability error and leaves the engine as it was, whatever the sampler is:
  nothing is sampled. Otherwise the call does not raise that error.\<close>

theorem measure_complex_probability:
  assumes "measure_basis eigvals eigvecs = Inr (vals, vecs)"
    and "outcomes_computed gp st qs vecs"
  shows "(complex_probability gp st qs vecs \<longrightarrow>
            measure gp choice st qs eigvals eigvecs shadow snap
              = (st, Inl ValueError_ComplexProbability))
       \<and> (\<not> complex_probability gp st qs vecs \<longrightarrow>
            snd (measure gp choice st qs eigvals eigvecs shadow snap)
              \<noteq> Inl ValueError_ComplexProbability)"
proof (cases "complex_probability gp st qs vecs")
  case True
  then have "measure_loop gp st qs vecs (product_bits (length qs)) = Inl ValueError_ComplexProbability"
    using measure_loop_complex [where gp = gp and st = st and qs = qs and vecs = vecs
        and rs = "product_bits (length qs)"] assms(2)
    by (simp add: outcomes_computed_def complex_probability_def)
  with True assms(1) show ?thesis
    by (simp add: measure_def)
next
  case False
  then obtain x where "measure_loop gp st qs vecs (product_bits (length qs)) = Inr x"
    using measure_loop_complex [where gp = gp and st = st and qs = qs and vecs = vecs
        and rs = "product_bits (length qs)"] assms(2)
    by (auto simp: outcomes_computed_def complex_probability_def)
  with False assms(1) show ?thesis
    by (auto simp: measure_def split: sum.splits prod.splits option.splits if_splits
        dest: py_getitem_error save_snapshot_error mapM_err_error)
qed

text \<open>Two instances on the engine in \<open>|0>\<close>: with a projector function that returns a
  matrix which is not Hermitian, the probability is \<open>i\<close> and the call raises; with the
  projector \<open>|v><v|\<close> the probabilities are real and the call returns.\<close>

theorem measure_complex_probability_witness:
  "measure_basis None None = Inr ([0, 1], [ZERO, ONE])
   \<and> outcomes_computed skew_projector sv_one_qubit [Qubit 0] [ZERO, ONE]
   \<and> complex_probability skew_projector sv_one_qubit [Qubit 0] [ZERO, ONE]
   \<and> measure skew_projector (\<lambda>probs. Some 0) sv_one_qubit [Qubit 0] None None False True
       = (sv_one_qubit, Inl ValueError_ComplexProbability)
   \<and> outcomes_computed get_projector sv_one_qubit [Qubit 0] [ZERO, ONE]
   \<and> \<not> complex_probability get_projector sv_one_qubit [Qubit 0] [ZERO, ONE]
   \<and> snd (measure get_projector (\<lambda>probs. Some 0) sv_one_qubit [Qubit 0] None None False True)
       = Inr [0]"
proof -
  have b: "measure_basis None None = Inr ([0, 1], [ZERO, ONE])"
    by (simp add: measure_basis_def)
  have c1: "outcomes_computed skew_projector sv_one_qubit [Qubit 0] [ZERO, ONE]"
    by (simp add: outcomes_computed_def measure_eval)
  have c2: "outcomes_computed get_projector sv_one_qubit [Qubit 0] [ZERO, ONE]"
    by (simp add: outcomes_computed_def measure_eval)
  show ?thesis
    using b c1 c2
      measure_complex_probability [OF b c1, of "\<lambda>probs. Some 0" False True]
      measure_complex_probability [OF b c2, of "\<lambda>probs. Some 0" False True]
    by (simp add: complex_probability_def measure_eval)
qed

subsection \<open>Measurement: the collapsing call\<close>

lemma product_bits_bits: "res \<in> set (product_bits k) \<Longrightarrow> list_all (\<lambda>i. i < 2) res"
  by (induction k arbitrary: res) auto

lemma mapM_err_eigvals:
  "list_all (\<lambda>i. i < length vals) res \<Longrightarrow>
   mapM_err (\<lambda>i. py_getitem vals (int i)) res = Inr (map (\<lambda>i. vals ! i) res)"
  by (induction res) (simp_all add: py_getitem_nat)

lemma save_snapshot_init:
  "StateVector_init (qubits st) (Some (basis st)) (Some (amp st)) = Inr s \<Longrightarrow>
   save_snapshot st = (with_snapshots st (snapshots st @ [s]), Inr ())"
  by (simp add: save_snapshot_def)

text \<open>The call returns: when the eigenbasis is given with two eigenvalues, every
  outcome computes, no probability is complex and (for a snapshot) the constructor
  accepts the current state, then for whatever outcome the sampler picks the call
  returns, and the engine it leaves and the value it returns are the following.\<close>

lemma measure_collapse_returns:
  assumes b: "measure_basis eigvals eigvecs = Inr (vals, vecs)"
    and oc: "outcomes_computed gp st qs vecs"
    and nc: "\<not> complex_probability gp st qs vecs"
    and v: "2 \<le> length vals"
    and sn: "snap \<longrightarrow> StateVector_init (qubits st) (Some (basis st)) (Some (amp st)) = Inr s"
  shows "\<exists>probs projections.
      measure_loop gp st qs vecs (product_bits (length qs)) = Inr (probs, projections)
    \<and> (\<forall>k. choice probs = Some k \<and> k < 2 ^ length qs \<longrightarrow>
          measure gp choice st qs eigvals eigvecs False snap
            = (StateVector (n_qubits st) (n_dim st) (qubits st) (basis st)
                 (np_div (projections ! k) (la_norm (projections ! k)))
                 (if snap then snapshots st @ [s] else snapshots st),
               Inr (map (\<lambda>i. vals ! i) (product_bits (length qs) ! k)))
          \<and> (\<exists>projected p.
                project_outcome gp st qs vecs (product_bits (length qs) ! k) = Inr (projected, p)
              \<and> store_row (n_dim st) projected = Inr (projections ! k)))"
proof -
  obtain probs projections where
    l: "measure_loop gp st qs vecs (product_bits (length qs)) = Inr (probs, projections)"
    using measure_loop_complex [where gp = gp and st = st and qs = qs and vecs = vecs
        and rs = "product_bits (length qs)"] oc nc
    by (auto simp: outcomes_computed_def complex_probability_def)
  have "measure gp choice st qs eigvals eigvecs False snap
            = (StateVector (n_qubits st) (n_dim st) (qubits st) (basis st)
                 (np_div (projections ! k) (la_norm (projections ! k)))
                 (if snap then snapshots st @ [s] else snapshots st),
               Inr (map (\<lambda>i. vals ! i) (product_bits (length qs) ! k)))
          \<and> (\<exists>projected p.
                project_outcome gp st qs vecs (product_bits (length qs) ! k) = Inr (projected, p)
              \<and> store_row (n_dim st) projected = Inr (projections ! k))"
    if c: "choice probs = Some k" and k: "k < 2 ^ length qs" for k
  proof -
    let ?res = "product_bits (length qs) ! k"
    have g: "py_getitem (product_bits (length qs)) (int k) = Inr ?res"
      using k by (simp add: py_getitem_int length_product_bits)
    have "?res \<in> set (product_bits (length qs))"
      using k by (simp add: length_product_bits)
    then have "list_all (\<lambda>i. i < 2) ?res"
      by (rule product_bits_bits)
    then have "list_all (\<lambda>i. i < length vals) ?res"
      using v by (auto simp: list_all_iff)
    then have m: "mapM_err (\<lambda>i. py_getitem vals (int i)) ?res = Inr (map (\<lambda>i. vals ! i) ?res)"
      by (rule mapM_err_eigvals)
    have st: "measure gp choice st qs eigvals eigvecs False snap
            = (StateVector (n_qubits st) (n_dim st) (qubits st) (basis st)
                 (np_div (projections ! k) (la_norm (projections ! k)))
                 (if snap then snapshots st @ [s] else snapshots st),
               Inr (map (\<lambda>i. vals ! i) ?res))"
    proof (cases snap)
      case True
      with sn have "save_snapshot st = (with_snapshots st (snapshots st @ [s]), Inr ())"
        by (simp add: save_snapshot_init)
      with True b l c g m show ?thesis
        by (simp add: measure_def with_amp_def with_snapshots_def)
    next
      case False
      with b l c g m show ?thesis
        by (simp add: measure_def with_amp_def)
    qed
    from measure_loop_nth [OF l, of k] k
    have "\<exists>projected p.
                project_outcome gp st qs vecs ?res = Inr (projected, p)
              \<and> store_row (n_dim st) projected = Inr (projections ! k)"
      by (auto simp: length_product_bits)
    with st show ?thesis
      by simp
  qed
  with l show ?thesis
    by blast
qed

lemma sqrt_16_25: "sqrt (16 / 25) = 4 / 5"
  by (rule real_sqrt_unique) (simp_all add: power2_eq_square)

text \<open>C2: every call of \<open>measure\<close> with \<open>shadow=False\<close>, in both directions.

  It returns: when the eigenbasis is given with two eigenvalues, every one of the
  outcomes computes, no probability is complex and, if the snapshot flag is set, the
  constructor accepts the current state as the snapshot \<open>s\<close>, then for the outcome \<open>k\<close>
  that the sampler picks among the \<open>2 ^ length qs\<close> the call returns the eigenvalues
  selected by the bits of outcome \<open>k\<close>, and leaves the engine with the amplitude vector
  replaced by the row stored for outcome \<open>k\<close> (its projected vector) divided by the
  norm of that row, with \<open>s\<close> appended to the log exactly when the flag is set, and with
  its other fields as they were.

  Nothing else returns: a call that returns has sampled such an outcome, returns those
  eigenvalues, one per measured qubit, and has left that engine; the snapshot appended
  was built from the amplitude vector as it was before the measurement (the
  constructor divides by the norm, so it holds that vector itself when the norm is
  1).\<close>

theorem measure_collapse:
  "(measure_basis eigvals eigvecs = Inr (vals, vecs)
      \<and> outcomes_computed gp st qs vecs \<and> \<not> complex_probability gp st qs vecs
      \<and> 2 \<le> length vals
      \<and> (snap \<longrightarrow> StateVector_init (qubits st) (Some (basis st)) (Some (amp st)) = Inr s)
    \<longrightarrow> (\<exists>probs projections.
          measure_loop gp st qs vecs (product_bits (length qs)) = Inr (probs, projections)
        \<and> (\<forall>k. choice probs = Some k \<and> k < 2 ^ length qs \<longrightarrow>
              measure gp choice st qs eigvals eigvecs False snap
                = (StateVector (n_qubits st) (n_dim st) (qubits st) (basis st)
                     (np_div (projections ! k) (la_norm (projections ! k)))
                     (if snap then snapshots st @ [s] else snapshots st),
                   Inr (map (\<lambda>i. vals ! i) (product_bits (length qs) ! k)))
              \<and> (\<exists>projected p.
                    project_outcome gp st qs vecs (product_bits (length qs) ! k)
                      = Inr (projected, p)
                  \<and> store_row (n_dim st) projected = Inr (projections ! k)))))
   \<and> (measure gp choice st qs eigvals eigvecs False snap = (st', Inr result)
    \<longrightarrow> (\<exists>vals' vecs' probs projections k projected p.
          measure_basis eigvals eigvecs = Inr (vals', vecs')
        \<and> measure_loop gp st qs vecs' (product_bits (length qs)) = Inr (probs, projections)
        \<and> choice probs = Some k \<and> k < 2 ^ length qs
        \<and> project_outcome gp st qs vecs' (product_bits (length qs) ! k) = Inr (projected, p)
        \<and> store_row (n_dim st) projected = Inr (projections ! k)
        \<and> result = map (\<lambda>i. vals' ! i) (product_bits (length qs) ! k)
        \<and> length result = length qs
        \<and> amp st' = np_div (projections ! k) (la_norm (projections ! k))
        \<and> (if snap
            then \<exists>s'. StateVector_init (qubits st) (Some (basis st)) (Some (amp st)) = Inr s'
                   \<and> amp s' = np_div (amp st) (la_norm (amp st))
                   \<and> (la_norm (amp st) = 1 \<longrightarrow> amp s' = amp st)
                   \<and> snapshots st' = snapshots st @ [s']
            else snapshots st' = snapshots st)
        \<and> n_qubits st' = n_qubits st \<and> n_dim st' = n_dim st
        \<and> qubits st' = qubits st \<and> basis st' = basis st))"
proof (intro conjI impI)
  assume a: "measure_basis eigvals eigvecs = Inr (vals, vecs)
      \<and> outcomes_computed gp st qs vecs \<and> \<not> complex_probability gp st qs vecs
      \<and> 2 \<le> length vals
      \<and> (snap \<longrightarrow> StateVector_init (qubits st) (Some (basis st)) (Some (amp st)) = Inr s)"
  then have "measure_basis eigvals eigvecs = Inr (vals, vecs)"
    and "outcomes_computed gp st qs vecs" and "\<not> complex_probability gp st qs vecs"
    and "2 \<le> length vals"
    and "snap \<longrightarrow> StateVector_init (qubits st) (Some (basis st)) (Some (amp st)) = Inr s"
    by simp_all
  then show "\<exists>probs projections.
          measure_loop gp st qs vecs (product_bits (length qs)) = Inr (probs, projections)
        \<and> (\<forall>k. choice probs = Some k \<and> k < 2 ^ length qs \<longrightarrow>
              measure gp choice st qs eigvals eigvecs False snap
                = (StateVector (n_qubits st) (n_dim st) (qubits st) (basis st)
                     (np_div (projections ! k) (la_norm (projections ! k)))
                     (if snap then snapshots st @ [s] else snapshots st),
                   Inr (map (\<lambda>i. vals ! i) (product_bits (length qs) ! k)))
              \<and> (\<exists>projected p.
                    project_outcome gp st qs vecs (product_bits (length qs) ! k)
                      = Inr (projected, p)
                  \<and> store_row (n_dim st) projected = Inr (projections ! k)))"
    by (rule measure_collapse_returns)
next
  assume "measure gp choice st qs eigvals eigvecs False snap = (st', Inr result)"
  then show "\<exists>vals' vecs' probs projections k projected p.
          measure_basis eigvals eigvecs = Inr (vals', vecs')
        \<and> measure_loop gp st qs vecs' (product_bits (length qs)) = Inr (probs, projections)
        \<and> choice probs = Some k \<and> k < 2 ^ length qs
        \<and> project_outcome gp st qs vecs' (product_bits (length qs) ! k) = Inr (projected, p)
        \<and> store_row (n_dim st) projected = Inr (projections ! k)
        \<and> result = map (\<lambda>i. vals' ! i) (product_bits (length qs) ! k)
        \<and> length result = length qs
        \<and> amp st' = np_div (projections ! k) (la_norm (projections ! k))
        \<and> (if snap
            then \<exists>s'. StateVector_init (qubits st) (Some (basis st)) (Some (amp st)) = Inr s'
                   \<and> amp s' = np_div (amp st) (la_norm (amp st))
                   \<and> (la_norm (amp st) = 1 \<longrightarrow> amp s' = amp st)
                   \<and> snapshots st' = snapshots st @ [s']
            else snapshots st' = snapshots st)
        \<and> n_qubits st' = n_qubits st \<and> n_dim st' = n_dim st
        \<and> qubits st' = qubits st \<and> basis st' = basis st"
    by (rule measure_collapse_steps)
qed

text \<open>An instance in which the state changes: the engine in \<open>(3/5, 4/5)\<close> is measured
  with eigenvalues \<open>(1, -1)\<close> and the identity as eigenvectors, the snapshot flag set.
  The probabilities are \<open>9/25\<close> and \<open>16/25\<close>; the sampler picks outcome 1. The call
  returns the eigenvalue \<open>-1\<close> (the bit is 1), the state has become \<open>(0, 1)\<close>, which is
  \<open>(0, 4/5)\<close> divided by its norm, and the log holds the engine as it was before.\<close>

theorem measure_collapse_witness:
  "measure_basis (Some [1, - 1]) (Some [[1, 0], [0, 1]]) = Inr ([1, - 1], [[1, 0], [0, 1]])
   \<and> outcomes_computed get_projector sv_tilted [Qubit 0] [[1, 0], [0, 1]]
   \<and> \<not> complex_probability get_projector sv_tilted [Qubit 0] [[1, 0], [0, 1]]
   \<and> StateVector_init (qubits sv_tilted) (Some (basis sv_tilted)) (Some (amp sv_tilted))
       = Inr sv_tilted
   \<and> measure_loop get_projector sv_tilted [Qubit 0] [[1, 0], [0, 1]] (product_bits 1)
       = Inr ([9 / 25, 16 / 25], [[3 / 5, 0], [0, 4 / 5]])
   \<and> measure get_projector (\<lambda>probs. Some 1) sv_tilted [Qubit 0] (Some [1, - 1])
         (Some [[1, 0], [0, 1]]) False True
       = (StateVector 1 2 [Qubit 0] (Basis 1) [0, 1] [sv_tilted], Inr [- 1])
   \<and> amp sv_tilted = [3 / 5, 4 / 5]
   \<and> np_div [0, 4 / 5] (la_norm [0, 4 / 5]) = [0, 1]"
proof -
  have b: "measure_basis (Some [1, - 1]) (Some [[1, 0], [0, 1]])
      = Inr ([1, - 1], [[1, 0], [0, 1]])"
    by (simp add: measure_basis_def np_transpose_def)
  have oc: "outcomes_computed get_projector sv_tilted [Qubit 0] [[1, 0], [0, 1]]
      \<and> \<not> complex_probability get_projector sv_tilted [Qubit 0] [[1, 0], [0, 1]]"
    by (simp add: outcomes_computed_def complex_probability_def measure_eval)
  have i: "StateVector_init (qubits sv_tilted) (Some (basis sv_tilted)) (Some (amp sv_tilted))
      = Inr sv_tilted"
    by (simp add: measure_eval power2_eq_square)
  have l: "measure_loop get_projector sv_tilted [Qubit 0] [[1, 0], [0, 1]] (product_bits 1)
      = Inr ([9 / 25, 16 / 25], [[3 / 5, 0], [0, 4 / 5]])"
    by (simp add: measure_eval power2_eq_square)
  have n: "np_div [0, 4 / 5] (la_norm [0, 4 / 5]) = [0, 1]"
    by (simp add: np_div_def la_norm_def sqrt_16_25 power2_eq_square)
  have a: "amp sv_tilted = [3 / 5, 4 / 5]"
    by (simp add: sv_tilted_def)
  have q: "n_qubits sv_tilted = 1 \<and> n_dim sv_tilted = 2 \<and> qubits sv_tilted = [Qubit 0]
      \<and> basis sv_tilted = Basis 1 \<and> snapshots sv_tilted = []"
    by (simp add: sv_tilted_def)
  show ?thesis
    using b oc i l n a q
      measure_collapse [where eigvals = "Some [1, - 1]" and eigvecs = "Some [[1, 0], [0, 1]]"
        and vals = "[1, - 1]" and vecs = "[[1, 0], [0, 1]]" and gp = get_projector
        and st = sv_tilted and qs = "[Qubit 0]" and snap = True and s = sv_tilted
        and choice = "\<lambda>probs. Some 1"]
    by simp
qed

subsection \<open>Norms\<close>

lemma sum_sq_nonneg: "0 \<le> sum_list (map (\<lambda>x. (cmod x)\<^sup>2) v)"
  by (induction v) simp_all

lemma la_norm_nonneg: "0 \<le> la_norm v"
  by (simp add: la_norm_def sum_sq_nonneg)

lemma sum_sq_zero: "sum_list (map (\<lambda>x. (cmod x)\<^sup>2) v) = 0 \<longleftrightarrow> list_all (\<lambda>x. x = 0) v"
proof (induction v)
  case Nil
  show ?case by simp
next
  case (Cons a v)
  have "(cmod a)\<^sup>2 + sum_list (map (\<lambda>x. (cmod x)\<^sup>2) v) = 0
        \<longleftrightarrow> (cmod a)\<^sup>2 = 0 \<and> sum_list (map (\<lambda>x. (cmod x)\<^sup>2) v) = 0"
    using sum_sq_nonneg [of v] by (simp add: add_nonneg_eq_0_iff)
  with Cons show ?case by simp
qed

lemma la_norm_zero: "la_norm v = 0 \<longleftrightarrow> list_all (\<lambda>x. x = 0) v"
  by (simp add: la_norm_def sum_sq_zero)

lemma sum_sq_div:
  "sum_list (map (\<lambda>x. (cmod x)\<^sup>2) (np_div v c)) = sum_list (map (\<lambda>x. (cmod x)\<^sup>2) v) / c\<^sup>2"
  by (induction v) (simp_all add: np_div_def norm_divide power_divide add_divide_distrib)

lemma la_norm_np_div: "la_norm (np_div v c) = la_norm v / \<bar>c\<bar>"
  by (simp add: la_norm_def sum_sq_div real_sqrt_divide)

lemma la_norm_normalized: "la_norm v \<noteq> 0 \<Longrightarrow> la_norm (np_div v (la_norm v)) = 1"
  using la_norm_nonneg [of v] by (simp add: la_norm_np_div)

lemma np_round_one_pos:
  assumes "np_round x 10 = 1"
  shows "0 < x"
proof (rule ccontr)
  assume "\<not> 0 < x"
  then have x: "x * 10 ^ 10 \<le> 0"
    by (simp add: mult_le_0_iff)
  then have "x * 10 ^ 10 < 1"
    by linarith
  then have f: "\<lfloor>x * 10 ^ 10\<rfloor> \<le> 0"
    by (simp only: floor_le_zero)
  have "rint (x * 10 ^ 10) \<le> \<lfloor>x * 10 ^ 10\<rfloor> + 1"
    by (simp add: rint_def Let_def)
  with f have "rint (x * 10 ^ 10) \<le> 1"
    by linarith
  moreover from assms have "rint (x * 10 ^ 10) = 10 ^ 10"
    by (simp add: np_round_def)
  ultimately show False
    by simp
qed

lemma dot_zero: "list_all (\<lambda>x. x = 0) b \<Longrightarrow> dot a b = 0"
proof (induction b arbitrary: a)
  case Nil
  show ?case by (simp add: dot_def)
next
  case (Cons x b)
  then show ?case
    by (cases a) (simp_all add: dot_def)
qed

lemma sv_set_atomic_normalized:
  "case sv_set st a of
     (st', Inl e) \<Rightarrow> st' = st
   | (st', Inr u) \<Rightarrow> la_norm (amp st') = 1"
proof -
  have "np_round (la_norm v) 10 = 1 \<Longrightarrow> la_norm (np_div v (la_norm v)) = 1" for v
    using np_round_one_pos [of "la_norm v"] by (simp add: la_norm_normalized)
  then show ?thesis
    by (simp add: sv_set_def Let_def with_amp_def)
qed

subsection \<open>Unitary operators preserve the norm\<close>

lemma dot_sum: "length a = length b \<Longrightarrow> dot a b = (\<Sum>i<length a. a ! i * b ! i)"
  by (simp add: dot_def sum_list_sum_nth atLeast0LessThan)

lemma sum_sq_sum:
  "complex_of_real (sum_list (map (\<lambda>x. (cmod x)\<^sup>2) v)) = (\<Sum>i<length v. cnj (v ! i) * v ! i)"
proof -
  have "complex_of_real (sum_list (map (\<lambda>x. (cmod x)\<^sup>2) v))
      = (\<Sum>i<length v. complex_of_real ((cmod (v ! i))\<^sup>2))"
    by (simp add: sum_list_sum_nth atLeast0LessThan)
  also have "\<dots> = (\<Sum>i<length v. cnj (v ! i) * v ! i)"
    by (rule sum.cong) (simp_all only: complex_norm_square mult.commute)
  finally show ?thesis .
qed

lemma square_transpose:
  assumes "u \<noteq> []" and "list_all (\<lambda>row. length row = length u) u"
  shows "np_transpose u = map (\<lambda>j. map (\<lambda>row. row ! j) u) [0..<length u]"
  using assms by (cases u) (simp_all add: np_transpose_def)

lemma unitary_entries:
  assumes "unitary u" and "j < length u" and "k < length u"
  shows "(\<Sum>i<length u. cnj (u ! i ! j) * u ! i ! k) = (if j = k then 1 else 0)"
proof -
  from assms(1) have ne: "u \<noteq> []" and sq: "list_all (\<lambda>row. length row = length u) u"
    and m: "np_dot_mm (dagger u) u = Inr (eye (length u))"
    by (simp_all add: unitary_def)
  have t: "np_transpose u = map (\<lambda>j. map (\<lambda>row. row ! j) u) [0..<length u]"
    using ne sq by (rule square_transpose)
  have "map (\<lambda>row. map (\<lambda>col. dot row col) (np_transpose u)) (dagger u) = eye (length u)"
    using m by (simp add: np_dot_mm_def split: if_splits)
  then have "map (\<lambda>row. map (\<lambda>col. dot row col) (np_transpose u)) (dagger u) ! j ! k
     = eye (length u) ! j ! k"
    by simp
  moreover have "eye (length u) ! j ! k = (if j = k then 1 else 0)"
    using assms(2,3) by (simp add: eye_def)
  moreover have "map (\<lambda>row. map (\<lambda>col. dot row col) (np_transpose u)) (dagger u) ! j ! k
     = dot (map (\<lambda>row. cnj (row ! j)) u) (map (\<lambda>row. row ! k) u)"
    using assms(2,3) by (simp add: dagger_def t comp_def)
  moreover have "dot (map (\<lambda>row. cnj (row ! j)) u) (map (\<lambda>row. row ! k) u)
     = (\<Sum>i<length u. cnj (u ! i ! j) * u ! i ! k)"
    by (simp add: dot_sum)
  ultimately show ?thesis
    by simp
qed

lemma sum_delta_mult:
  fixes f :: "nat \<Rightarrow> complex"
  shows "(\<Sum>k<n. f k * (if x = k then 1 else 0)) = (if x < n then f x else 0)"
proof -
  have "(\<Sum>k<n. f k * (if x = k then 1 else 0)) = (\<Sum>k<n. if x = k then f k else 0)"
    by (rule sum.cong) simp_all
  then show ?thesis
    by simp
qed

lemma unitary_preserves_sum_sq:
  assumes "unitary u" and "length v = length u"
  shows "(\<Sum>i<length u. cnj (dot (u ! i) v) * dot (u ! i) v) = (\<Sum>j<length u. cnj (v ! j) * v ! j)"
proof -
  let ?n = "length u"
  from assms(1) have sq: "list_all (\<lambda>row. length row = length u) u"
    by (simp add: unitary_def)
  have row: "dot (u ! i) v = (\<Sum>j<?n. u ! i ! j * v ! j)" if "i < ?n" for i
    using that sq assms(2) by (simp add: dot_sum list_all_length)
  have "(\<Sum>i<?n. cnj (dot (u ! i) v) * dot (u ! i) v)
      = (\<Sum>i<?n. (\<Sum>j<?n. cnj (u ! i ! j) * cnj (v ! j)) * (\<Sum>k<?n. u ! i ! k * v ! k))"
    by (rule sum.cong) (simp_all add: row)
  also have "\<dots> = (\<Sum>i<?n. \<Sum>j<?n. \<Sum>k<?n. cnj (v ! j) * v ! k * (cnj (u ! i ! j) * u ! i ! k))"
    by (rule sum.cong, simp, simp only: sum_product, rule sum.cong, simp, rule sum.cong, simp,
        simp add: algebra_simps)
  also have "\<dots> = (\<Sum>j<?n. \<Sum>i<?n. \<Sum>k<?n. cnj (v ! j) * v ! k * (cnj (u ! i ! j) * u ! i ! k))"
    by (rule sum.swap)
  also have "\<dots> = (\<Sum>j<?n. \<Sum>k<?n. \<Sum>i<?n. cnj (v ! j) * v ! k * (cnj (u ! i ! j) * u ! i ! k))"
    by (rule sum.cong, simp, rule sum.swap)
  also have "\<dots> = (\<Sum>j<?n. \<Sum>k<?n. cnj (v ! j) * v ! k * (\<Sum>i<?n. cnj (u ! i ! j) * u ! i ! k))"
    by (simp add: sum_distrib_left)
  also have "\<dots> = (\<Sum>j<?n. \<Sum>k<?n. cnj (v ! j) * v ! k * (if j = k then 1 else 0))"
    by (rule sum.cong, simp, rule sum.cong, simp) (simp add: unitary_entries [OF assms(1)])
  also have "\<dots> = (\<Sum>j<?n. cnj (v ! j) * v ! j)"
    by (rule sum.cong) (simp_all add: sum_delta_mult)
  finally show ?thesis .
qed


lemma unitary_preserves_norm:
  assumes "unitary u" and "length v = length u"
  shows "la_norm (map (\<lambda>row. dot row v) u) = la_norm v"
proof -
  let ?w = "map (\<lambda>row. dot row v) u"
  have "complex_of_real (sum_list (map (\<lambda>x. (cmod x)\<^sup>2) ?w))
      = (\<Sum>i<length ?w. cnj (?w ! i) * ?w ! i)"
    by (rule sum_sq_sum)
  also have "\<dots> = (\<Sum>i<length u. cnj (dot (u ! i) v) * dot (u ! i) v)"
    by (rule sum.cong) simp_all
  also have "\<dots> = (\<Sum>j<length u. cnj (v ! j) * v ! j)"
    using assms by (rule unitary_preserves_sum_sq)
  also have "\<dots> = complex_of_real (sum_list (map (\<lambda>x. (cmod x)\<^sup>2) v))"
    using assms(2) sum_sq_sum [of v] by simp
  finally have "sum_list (map (\<lambda>x. (cmod x)\<^sup>2) ?w) = sum_list (map (\<lambda>x. (cmod x)\<^sup>2) v)"
    by (simp only: of_real_eq_iff)
  then show ?thesis
    by (simp add: la_norm_def)
qed

lemma apply_unitary_normalized:
  assumes "unitary u" and "length (amp st) = length u" and "la_norm (amp st) = 1"
  shows "\<exists>st'. apply_unitary st u = (st', Inr ()) \<and> la_norm (amp st') = 1"
proof -
  from assms(1) have "list_all (\<lambda>row. length row = length u) u"
    by (simp add: unitary_def)
  with assms(2) have "np_dot_mv u (amp st) = Inr (map (\<lambda>row. dot row (amp st)) u)"
    by (simp add: np_dot_mv_def)
  then show ?thesis
    using unitary_preserves_norm [OF assms(1), of "amp st"] assms(2,3)
    by (simp add: apply_unitary_def with_amp_def)
qed

lemma apply_unitary_atomic: "apply_unitary st u = (st', Inl e) \<Longrightarrow> st' = st"
  by (auto simp: apply_unitary_def split: sum.splits)

subsection \<open>The norm after a collapse\<close>

lemma store_row_nonzero:
  assumes "store_row k v = Inr row" and "\<not> list_all (\<lambda>x. x = 0) v" and "0 < k"
  shows "\<not> list_all (\<lambda>x. x = 0) row"
proof (cases "length v = k")
  case True
  with assms show ?thesis by (simp add: store_row_def)
next
  case False
  with assms(1) have l: "length v = 1" and row: "row = replicate k (hd v)"
    by (auto simp: store_row_def split: if_splits)
  from l obtain x where "v = [x]"
    by (cases v) auto
  with assms(2,3) row show ?thesis
    by (cases k) auto
qed

lemma measure_loop_sampled_norm:
  assumes "measure_loop gp st qs vecs rs = Inr (probs, projections)"
    and "k < length rs" and "probs ! k \<noteq> 0" and "0 < n_dim st"
  shows "la_norm (projections ! k) \<noteq> 0"
proof -
  from measure_loop_nth [OF assms(1,2)] obtain projected p where
    po: "project_outcome gp st qs vecs (rs ! k) = Inr (projected, p)"
    and sr: "store_row (n_dim st) projected = Inr (projections ! k)"
    and pr: "probs ! k = Re p"
    by blast
  from po have "p = dot (map cnj (amp st)) projected"
    by (auto simp: project_outcome_def np_dot_vv_def split: sum.splits if_splits)
  with pr assms(3) have "dot (map cnj (amp st)) projected \<noteq> 0"
    by auto
  then have "\<not> list_all (\<lambda>x. x = 0) projected"
    using dot_zero by blast
  then have "\<not> list_all (\<lambda>x. x = 0) (projections ! k)"
    using store_row_nonzero [OF sr _ assms(4)] by blast
  then show ?thesis
    by (simp add: la_norm_zero)
qed

lemma measure_atomic:
  assumes "measure gp choice st qs eigvals eigvecs shadow snap = (st', Inl e)"
  shows "st' = st"
  using assms
  by (auto simp: measure_def split: sum.splits prod.splits option.splits if_splits
      dest: save_snapshot_error)

lemma measure_collapse_normalized:
  assumes "measure gp choice st qs eigvals eigvecs False snap = (st', Inr result)"
    and "measure_basis eigvals eigvecs = Inr (vals, vecs)"
    and "measure_loop gp st qs vecs (product_bits (length qs)) = Inr (probs, projections)"
    and "choice probs = Some k" and "probs ! k \<noteq> 0" and "0 < n_dim st"
  shows "la_norm (amp st') = 1"
proof -
  from assms(1,2,3,4) obtain st1 where
    k: "k < 2 ^ length qs"
    and a: "st' = with_amp st1 (np_div (projections ! k) (la_norm (projections ! k)))"
    by (auto simp: measure_def py_getitem_int length_product_bits
        split: sum.splits prod.splits if_splits)
  from k have "la_norm (projections ! k) \<noteq> 0"
    using measure_loop_sampled_norm [OF assms(3) _ assms(5,6)] by (simp add: length_product_bits)
  with a show ?thesis
    by (simp add: la_norm_normalized with_amp_def)
qed

subsection \<open>The invariant of the engine\<close>

lemma set_qubits_outcome:
  "case set_qubits st qs b a of
     (st', Inl e) \<Rightarrow>
        st' = StateVector (length qs) (2 ^ length qs) qs
                (case b of None \<Rightarrow> Basis (length qs) | Some b' \<Rightarrow> b') (amp st) (snapshots st)
   | (st', Inr u) \<Rightarrow> la_norm (amp st') = 1"
  using sv_set_atomic_normalized
    [of "StateVector (length qs) (2 ^ length qs) qs
          (case b of None \<Rightarrow> Basis (length qs) | Some b' \<Rightarrow> b') (amp st) (snapshots st)" a]
  by (auto simp: set_qubits_def split: prod.splits sum.splits)

text \<open>C4, as the code has it. Not every mutating operation leaves a vector of norm 1
  or fails without any update.

  \<open>set_qubits\<close> assigns \<open>qubits\<close>, \<open>n_qubits\<close>, \<open>basis\<close> and \<open>n\<close> before \<open>set\<close> can raise:
  on the one-qubit engine, two qubits with a vector of length 3 raise the dimension
  error and leave an engine with \<open>n = 4\<close> and the old amplitude vector of length 2.

  \<open>measure_qubit\<close>, the single-qubit collapsing measurement: on the engine in \<open>|1>\<close> the
  first outcome has probability 0; when the random number is 0 the test
  \<open>random() > p0\<close> fails, the first outcome is taken, and the call returns with the zero
  vector divided by its norm 0 as the new state (the zero vector here, NaN in numpy),
  not a vector of norm 1. And with a single eigenvalue \<open>[7]\<close> on the engine in
  \<open>(3/5, 4/5)\<close>, the second outcome is taken, the state is replaced by \<open>(0, 1)\<close>, and only
  then \<open>eigvals[1]\<close> raises \<open>IndexError\<close>.\<close>

theorem engine_invariant_counterexample:
  "set_qubits sv_one_qubit [Qubit 0, Qubit 1] None (Some [1, 0, 0])
     = (StateVector 2 4 [Qubit 0, Qubit 1] (Basis 2) [1, 0] [], Inl ValueError_Dimensions)
   \<and> length (amp sv_one_qubit) \<noteq> 4
   \<and> measure_qubit get_projector 0 sv_excited (Qubit 0) None None False
     = (StateVector 1 2 [Qubit 0] (Basis 1) [0, 0] [], Inr 0)
   \<and> la_norm (amp sv_excited) = 1 \<and> la_norm [0, 0] \<noteq> 1
   \<and> measure_qubit get_projector (1 / 2) sv_tilted (Qubit 0) (Some [7]) (Some [[1, 0], [0, 1]]) False
     = (StateVector 1 2 [Qubit 0] (Basis 1) [0, 1] [], Inl IndexError)
   \<and> amp sv_tilted \<noteq> [0, 1]"
  by (simp add: measure_eval measure_qubit_def project_def sqrt_16_25 power2_eq_square)

text \<open>C4, amended: \<open>set\<close>, \<open>apply_unitary\<close> and the multi-qubit \<open>measure\<close> each either leave
  an amplitude vector of norm 1 or fail with the engine exactly as it was. \<open>set\<close>
  (initialization): when it raises, the engine is as before; when it returns, the new
  vector has norm 1. \<open>apply_unitary\<close>: when it raises (a shape error), the engine is as
  before; for a unitary \<open>u\<close> of the vector's dimension it returns, and a vector of norm 1
  stays of norm 1. \<open>measure\<close> with collapse: when it raises, the engine is as before;
  when it returns and the sampler has picked an outcome of non-zero probability
  (\<open>self.n\<close>, a power of two, being positive), the new vector has norm 1.
  \<open>set_qubits\<close>, through which the constructor calls \<open>set\<close>: when it returns, the vector
  has norm 1; when it raises, the amplitude vector and the snapshot log are exactly as
  before, while \<open>qubits\<close>, \<open>n_qubits\<close>, \<open>basis\<close> and \<open>n\<close> hold the new values. Nothing is
  said of \<open>measure_qubit\<close>.\<close>

theorem normalized_or_unchanged:
  "(case sv_set st a of
      (st', Inl e) \<Rightarrow> st' = st
    | (st', Inr r) \<Rightarrow> la_norm (amp st') = 1)
   \<and> (case set_qubits st qs b a of
      (st', Inl e) \<Rightarrow>
        st' = StateVector (length qs) (2 ^ length qs) qs
                (case b of None \<Rightarrow> Basis (length qs) | Some b' \<Rightarrow> b') (amp st) (snapshots st)
        \<and> amp st' = amp st \<and> snapshots st' = snapshots st
    | (st', Inr r) \<Rightarrow> la_norm (amp st') = 1)
   \<and> (case apply_unitary st u of
      (st', Inl e) \<Rightarrow> st' = st
    | (st', Inr r) \<Rightarrow>
        unitary u \<and> length (amp st) = length u \<and> la_norm (amp st) = 1 \<longrightarrow> la_norm (amp st') = 1)
   \<and> (unitary u \<and> length (amp st) = length u \<longrightarrow> snd (apply_unitary st u) = Inr ())
   \<and> (case measure gp choice st ms eigvals eigvecs False snap of
      (st', Inl e) \<Rightarrow> st' = st
    | (st', Inr r) \<Rightarrow>
        (\<forall>vals vecs probs projections k.
           measure_basis eigvals eigvecs = Inr (vals, vecs)
           \<and> measure_loop gp st ms vecs (product_bits (length ms)) = Inr (probs, projections)
           \<and> choice probs = Some k \<and> probs ! k \<noteq> 0 \<and> 0 < n_dim st
           \<longrightarrow> la_norm (amp st') = 1))"
proof -
  have m: "case measure gp choice st ms eigvals eigvecs False snap of
      (st', Inl e) \<Rightarrow> st' = st
    | (st', Inr r) \<Rightarrow>
        (\<forall>vals vecs probs projections k.
           measure_basis eigvals eigvecs = Inr (vals, vecs)
           \<and> measure_loop gp st ms vecs (product_bits (length ms)) = Inr (probs, projections)
           \<and> choice probs = Some k \<and> probs ! k \<noteq> 0 \<and> 0 < n_dim st
           \<longrightarrow> la_norm (amp st') = 1)"
    by (auto split: prod.splits sum.splits dest: measure_atomic measure_collapse_normalized)
  have u: "case apply_unitary st u of
      (st', Inl e) \<Rightarrow> st' = st
    | (st', Inr r) \<Rightarrow>
        unitary u \<and> length (amp st) = length u \<and> la_norm (amp st) = 1 \<longrightarrow> la_norm (amp st') = 1"
    using apply_unitary_normalized [of u st]
    by (auto split: prod.splits sum.splits dest: apply_unitary_atomic)
  have v: "unitary u \<and> length (amp st) = length u \<longrightarrow> snd (apply_unitary st u) = Inr ()"
    by (auto simp: apply_unitary_def np_dot_mv_def unitary_def)
  have q: "case set_qubits st qs b a of
      (st', Inl e) \<Rightarrow>
        st' = StateVector (length qs) (2 ^ length qs) qs
                (case b of None \<Rightarrow> Basis (length qs) | Some b' \<Rightarrow> b') (amp st) (snapshots st)
        \<and> amp st' = amp st \<and> snapshots st' = snapshots st
    | (st', Inr r) \<Rightarrow> la_norm (amp st') = 1"
    using set_qubits_outcome [where st = st and qs = qs and b = b and a = a]
    by (auto split: prod.splits sum.splits)
  show ?thesis
    using sv_set_atomic_normalized [of st a] q m u v
    by blast
qed

text \<open>Instances on the one-qubit engine in \<open>|0>\<close>: \<open>set\<close> accepts \<open>(0, i)\<close> and refuses
  \<open>(2, 0)\<close> without a change; the unitary X takes the engine to \<open>|1>\<close>; a collapsing
  measurement that samples outcome 0, of probability 1, leaves \<open>(1, 0)\<close>.\<close>

theorem normalized_or_unchanged_witness:
  "sv_set sv_one_qubit (Some [0, \<i>]) = (with_amp sv_one_qubit [0, \<i>], Inr ())
   \<and> la_norm [0, \<i>] = 1
   \<and> sv_set sv_one_qubit (Some [2, 0]) = (sv_one_qubit, Inl ValueError_NotNormalized)
   \<and> unitary X_GATE \<and> length (amp sv_one_qubit) = length X_GATE \<and> la_norm (amp sv_one_qubit) = 1
   \<and> apply_unitary sv_one_qubit X_GATE = (sv_excited, Inr ())
   \<and> la_norm (amp sv_excited) = 1
   \<and> measure get_projector (\<lambda>probs. Some 0) sv_one_qubit [Qubit 0] None None False True
       = (StateVector 1 2 [Qubit 0] (Basis 1) [1, 0] [sv_one_qubit], Inr [0])
   \<and> measure_loop get_projector sv_one_qubit [Qubit 0] [ZERO, ONE] (product_bits 1)
       = Inr ([1, 0], [[1, 0], [0, 0]])
   \<and> [1, 0 :: real] ! 0 \<noteq> 0 \<and> 0 < n_dim sv_one_qubit"
  using normalized_or_unchanged [where st = sv_one_qubit and a = "Some [0, \<i>]" and u = X_GATE
      and gp = get_projector and choice = "\<lambda>probs. Some 0" and ms = "[Qubit 0]"
      and eigvals = None and eigvecs = None and snap = True and qs = "[Qubit 0]" and b = None]
    normalized_or_unchanged [where st = sv_one_qubit and a = "Some [2, 0]" and u = X_GATE
      and gp = get_projector and choice = "\<lambda>probs. Some 0" and ms = "[Qubit 0]"
      and eigvals = None and eigvecs = None and snap = True and qs = "[Qubit 0]" and b = None]
  by (simp add: measure_eval X_GATE_def unitary_def dagger_def np_dot_mm_def apply_unitary_def)

subsection \<open>The round trip through the text format\<close>

lemmas inst_eval = Gate_init_def Measurement_init_def Instruction_init_def per_qubit_def
  pmap_add_def add_empty_def add_arg_def link_param_def empty_globals_def

lemmas text_eval = Circuit_to_string_def Circuit_from_string_def to_string_def from_string_def
  Circuit_init_def circuit_add_def qu_indices_def con_indices_def cl_indices_def bit_indices_def
  args_def argidx_def pmap_get_def py_getitem_def get_bit_def str_lower_def lower_char_def

lemma upt_0_2: "[0..<2] = [0, Suc 0]"
  by (simp add: numeral_2_eq_2)

text \<open>C1: parsing the text of a circuit gives back the gate names, the qubit, control
  and classical-bit indices and the argument values. The code does not: take the
  circuit on two qubits and two classical bits with a Hadamard on qubit 0, an X on
  qubit 1 controlled by qubit 0, and a measurement of qubits 0 and 1 into the classical
  bits 1 and 0. Its text parses to a circuit whose controlled gate is named \<open>ccX\<close>
  instead of \<open>cX\<close> (the constructor puts a \<open>c\<close> in front of the name that was written
  with its \<open>c\<close>), and whose measurement writes to the classical bits 0 and 1 (the
  classical bits are read from the field \<open>qbits\<close>). The qubit and control indices do
  come back.\<close>

theorem round_trip_changes_instructions:
  "\<exists>g1 h g2 cx g3 m c t g parsed.
      Gate_init empty_globals ''H'' (Some [Some (Qubit 0)]) None None None 1 1 = (g1, Inr h)
    \<and> Gate_init g1 ''X'' (Some [Some (Qubit 1)]) (Some [Some (Qubit 0)]) None None 1 1 = (g2, Inr cx)
    \<and> Measurement_init g2 ''m'' (Some [Some (Qubit 0), Some (Qubit 1)])
         (Some [Some (Clbit 1), Some (Clbit 0)]) None = (g3, Inr m)
    \<and> c = circuit_add (circuit_add (circuit_add (Circuit_init 2 None) h) cx) m
    \<and> Circuit_to_string (pmap g3) c = Inr t
    \<and> Circuit_from_string g3 t = (g, Inr parsed)
    \<and> map name (instructions c) = [''H'', ''cX'', ''m'']
    \<and> map name (instructions parsed) = [''H'', ''ccX'', ''m'']
    \<and> map cl_indices (instructions c) = [Inr None, Inr None, Inr (Some [1, 0])]
    \<and> map cl_indices (instructions parsed) = [Inr None, Inr None, Inr (Some [0, 1])]
    \<and> map qu_indices (instructions parsed) = map qu_indices (instructions c)
    \<and> map con_indices (instructions parsed) = map con_indices (instructions c)"
  by (simp add: inst_eval text_eval upt_0_2)

subsection \<open>The name of a controlled gate\<close>

lemma str_replace_c_prefix:
  "CHR ''c'' \<notin> set nm \<Longrightarrow> str_replace_c (replicate k CHR ''c'' @ nm) = nm"
  by (induction k) (auto simp: str_replace_c_def filter_id_conv)

text \<open>Where the base name holds no \<open>c\<close>, removing every \<open>c\<close> removes the prefix and
  nothing else, and a controlled gate looks up the function of its base name.\<close>

lemma controlled_lookup:
  assumes "name inst = replicate k CHR ''c'' @ nm" and "CHR ''c'' \<notin> set nm"
  shows "get_gatefunc gs (str_replace_c (name inst)) = get_gatefunc gs nm"
  using assms by (simp add: str_replace_c_prefix)

text \<open>C9: the \<open>c\<close> put in front of the name of a controlled gate is for display and
  does not change the operator built: \<open>build_matrix\<close> expands the matrix of the base
  gate. The code removes every \<open>c\<close> from the name before the lookup, not the prefix
  alone. For a gate registered as \<open>custom\<close> by \<open>Gate.custom\<close> (whatever its function
  \<open>f\<close>, and whatever \<open>cgate\<close> and \<open>single_gate\<close> are), the gate without control builds
  from \<open>f\<close>, while the gate with one control, named \<open>ccustom\<close>, looks up \<open>ustom\<close> and
  raises \<open>KeyError\<close>.\<close>

theorem controlled_custom_gate_not_found:
  "\<exists>g1 plain g2 controlled gs.
      gs = add_custom_gate \<lparr>GATE_DICT = Map.empty, cgate = cg, single_gate = sg\<rparr> ''custom'' (Func1 f)
    \<and> Gate_init empty_globals ''custom'' (Some [Some (Qubit 1)]) None None None 1 1
        = (g1, Inr plain)
    \<and> Gate_init g1 ''custom'' (Some [Some (Qubit 1)]) (Some [Some (Qubit 0)]) None None 1 1
        = (g2, Inr controlled)
    \<and> name plain = ''custom'' \<and> name controlled = ''ccustom''
    \<and> build_matrix gs (pmap g2) plain 2 = Inr (sg [1] [f None] 2)
    \<and> str_replace_c (name controlled) = ''ustom''
    \<and> build_matrix gs (pmap g2) controlled 2 = Inl KeyError"
  by (simp add: inst_eval add_custom_gate_def build_matrix_def is_controlled_def
      get_gatefunc_def str_replace_c_def str_lower_def lower_char_def qu_indices_def
      bit_indices_def qubit_gate_matrix_def get_arg_def args_def pmap_get_def py_getitem_def
      call1_def)

end
